theory Spec2Isabelle
  imports
    Complex_Main
    "HOL-Library.Char_ord"
    "HOL-Library.List_Lexorder"
    "HOL-Library.Product_Lexorder"
    "HOL-Library.Log_Nat"
begin

section \<open>Arms trade maps: the classifier, the aggregator and the presenter\<close>

text \<open>
  The development follows the two Python classes of the repository:
  \<^verbatim>\<open>ArmsTradeData\<close> (\<^verbatim>\<open>process_arms_trade_data.py\<close>), which tags every trade
  partner with a region type and a map code, and \<^verbatim>\<open>MapPlotter\<close> (\<^verbatim>\<open>plot_maps.py\<close>),
  which filters and groups the register, joins it to the world map and derives title,
  hover text and colour bar ticks.

  Modelling decisions, used throughout:
  \<^item> a data frame is the list of its rows, a row is a record of its columns;
  \<^item> a null cell (\<^verbatim>\<open>None\<close>, \<^verbatim>\<open>NaN\<close>) is \<open>None\<close> of an option type;
  \<^item> strings are byte lists; Python compares strings by code point, which is the byte
    order of their UTF-8 encoding;
  \<^item> a quantity is a real number and arithmetic on quantities is exact: the floating point
    value nearest to a number and the rounding of floating point operations are not
    part of the model; the date column chosen by \<^verbatim>\<open>date_column\<close> holds integer years;
  \<^item> a column that a frame may lack is a flag of the frame, and reading it when it is
    absent raises;
  \<^item> an exception is a value \<open>Inl e\<close> of a sum type;
  \<^item> the operations of the data frame library are total on frames without rows: grouping,
    merging and a row-wise \<^verbatim>\<open>apply\<close> of a frame without rows give a frame without rows.
\<close>

subsection \<open>Python string operations\<close>

text \<open>\<^verbatim>\<open>sub in s\<close>: \<open>sub\<close> occurs in \<open>s\<close> as a contiguous piece.\<close>

fun str_in :: "string \<Rightarrow> string \<Rightarrow> bool" where
  "str_in sub [] = (sub = [])"
| "str_in sub (c # cs) = (take (length sub) (c # cs) = sub \<or> str_in sub cs)"

text \<open>\<^verbatim>\<open>s.endswith(suf)\<close>.\<close>

definition endswith :: "string \<Rightarrow> string \<Rightarrow> bool" where
  "endswith s suf = (take (length suf) (rev s) = rev suf)"

text \<open>\<^verbatim>\<open>s.rstrip('*')\<close>.\<close>

definition rstrip_star :: "string \<Rightarrow> string" where
  "rstrip_star s = rev (dropWhile (\<lambda>c. c = CHR ''*'') (rev s))"

text \<open>\<^verbatim>\<open>str(x)\<close> of an optional string, as an f-string formats it.\<close>

fun py_str :: "string option \<Rightarrow> string" where
  "py_str None = ''None''"
| "py_str (Some s) = s"

text \<open>Truth value of an optional string: \<^verbatim>\<open>None\<close> and the empty string are false.\<close>

fun truthy :: "string option \<Rightarrow> bool" where
  "truthy None = False"
| "truthy (Some s) = (s \<noteq> [])"

text \<open>The decimal digits of a natural number, most significant first.\<close>

definition digit_char :: "nat \<Rightarrow> char" where
  "digit_char n = ''0123456789'' ! (n mod 10)"

fun str_nat :: "nat \<Rightarrow> string" where
  "str_nat n = (if n < 10 then [digit_char n] else str_nat (n div 10) @ [digit_char (n mod 10)])"

declare str_nat.simps [simp del]

text \<open>\<^verbatim>\<open>str(n)\<close> of an integer.\<close>

definition str_int :: "int \<Rightarrow> string" where
  "str_int i = (if i < 0 then CHR ''-'' # str_nat (nat (- i)) else str_nat (nat i))"

subsection \<open>The register\<close>

text \<open>
  A row of the raw register, with the columns the pipeline reads. \<open>Order_year\<close> stands
  for the date column and \<open>units\<close> for the quantity column that the query selects.
\<close>

record raw_row =
  Supplier :: string
  Recipient :: string
  Order_year :: int
  Armament_category :: string
  units :: real

text \<open>A row of the enriched register.\<close>

record trade_row = raw_row +
  Supplier_region_type :: string
  Recipient_region_type :: string
  Supplier_iso_a3 :: "string option"
  Recipient_iso_a3 :: "string option"

subsection \<open>The classifier (\<^verbatim>\<open>ArmsTradeData\<close>)\<close>

definition former_countries :: "string list" where
  "former_countries =
     [''Biafra'', ''Czechoslovakia'', ''East Germany (GDR)'', ''North Yemen'',
      ''Northern Cyprus'', ''South Vietnam'', ''South Yemen'', ''Soviet Union'',
      ''Yugoslavia'']"

text \<open>
  The name lists that \<^verbatim>\<open>assign_region_types\<close> stores in the object; the two columns
  that it adds to the register are set in \<open>enrich_row\<close> below.
\<close>

record region_lists =
  regions :: "string list"
  countries :: "string list"
  rebel_groups :: "string list"
  orgs :: "string list"

definition assign_region_types :: "raw_row list \<Rightarrow> region_lists" where
  "assign_region_types df =
     (let rs = sort (remdups (map Supplier df @ map Recipient df));
          cs = filter (\<lambda>r. \<not> str_in ''unknown'' r \<and> \<not> endswith r ''*'') rs;
          rb = filter (\<lambda>r. \<not> str_in ''unknown'' r \<and> endswith r ''*'' \<and> \<not> endswith r ''**'') rs;
          os = filter (\<lambda>r. \<not> str_in ''unknown'' r \<and> endswith r ''**'') rs
      in \<lparr>regions = rs,
          countries = filter (\<lambda>c. c \<notin> set former_countries) cs,
          rebel_groups = rb,
          orgs = os\<rparr>)"

definition get_region_type :: "region_lists \<Rightarrow> string \<Rightarrow> string" where
  "get_region_type st region =
     (if region \<in> set (countries st) then ''Country''
      else if region \<in> set former_countries then ''Former Country''
      else if region \<in> set (orgs st) then ''Organisation''
      else if region \<in> set (rebel_groups st) then ''Rebel Group''
      else ''Unknown'')"

definition former_country_mapping :: "string \<rightharpoonup> string" where
  "former_country_mapping =
     map_of [(''Biafra'', ''NGA''), (''Czechoslovakia'', ''CZE''),
             (''East Germany (GDR)'', ''DEU''), (''North Yemen'', ''YEM''),
             (''Northern Cyprus'', ''CYP''), (''South Vietnam'', ''VNM''),
             (''South Yemen'', ''YEM''), (''Soviet Union'', ''RUS''),
             (''Yugoslavia'', ''SRB'')]"

definition org_mapping :: "string \<rightharpoonup> string" where
  "org_mapping =
     map_of [(''African Union**'', ''ETH''), (''European Union**'', ''BEL''),
             (''NATO**'', ''BEL''), (''OSCE**'', ''AUT''),
             (''Regional Security System**'', ''BRB''), (''United Nations**'', ''USA'')]"

text \<open>
  The code of one partner (\<^verbatim>\<open>assign_iso_a3_code_to_row\<close>, one block per side). The
  tables \<open>country_mapping\<close> and \<open>rebel_group_mapping\<close> are built with the external
  country-name matcher and are parameters here. A partner of type Unknown gets no code.
\<close>

definition iso_a3_code ::
    "(string \<rightharpoonup> string) \<Rightarrow> (string \<rightharpoonup> string) \<Rightarrow> string \<Rightarrow> string \<Rightarrow> string option" where
  "iso_a3_code country_mapping rebel_group_mapping region_type name =
     (if region_type = ''Country'' then country_mapping name
      else if region_type = ''Former Country'' then former_country_mapping name
      else if region_type = ''Organisation'' then org_mapping name
      else if region_type = ''Rebel Group'' then rebel_group_mapping name
      else None)"

text \<open>
  One row after \<^verbatim>\<open>assign_region_types\<close>, \<^verbatim>\<open>assign_iso_a3_code_to_row\<close> and
  \<^verbatim>\<open>remove_trailing_asterisk\<close>. A code cell is null when the table has no entry for the
  name, and also when the row function does not assign it, which is the case for a
  partner of type Unknown.
\<close>

definition enrich_row ::
    "(string \<rightharpoonup> string) \<Rightarrow> (string \<rightharpoonup> string) \<Rightarrow> region_lists \<Rightarrow> raw_row \<Rightarrow> trade_row" where
  "enrich_row cm rm st r =
     (let st_ty = get_region_type st (Supplier r);
          rt_ty = get_region_type st (Recipient r)
      in \<lparr>Supplier = rstrip_star (Supplier r),
          Recipient = rstrip_star (Recipient r),
          Order_year = Order_year r,
          Armament_category = Armament_category r,
          units = units r,
          Supplier_region_type = st_ty,
          Recipient_region_type = rt_ty,
          Supplier_iso_a3 = iso_a3_code cm rm st_ty (Supplier r),
          Recipient_iso_a3 = iso_a3_code cm rm rt_ty (Recipient r)\<rparr>)"

text \<open>
  The region types for which \<^verbatim>\<open>assign_iso_a3_code_to_row\<close> assigns the code cell: its
  four branches; it has no branch for Unknown.
\<close>

definition sets_iso_a3 :: "string \<Rightarrow> bool" where
  "sets_iso_a3 region_type =
     (region_type = ''Country'' \<or> region_type = ''Former Country''
      \<or> region_type = ''Organisation'' \<or> region_type = ''Rebel Group'')"

text \<open>
  The enriched register as a data frame: its rows, and whether it has the two code
  columns. The columns are created by \<^verbatim>\<open>df.apply(assign_iso_a3_code_to_row, axis=1)\<close>: a
  code column exists when at least one row has assigned its cell, so it is absent when
  all partners of that side are of type Unknown (and in a register without rows).
\<close>

record data_frame =
  rows :: "trade_row list"
  has_Supplier_iso_a3 :: bool
  has_Recipient_iso_a3 :: bool

definition enriched_frame :: "trade_row list \<Rightarrow> data_frame" where
  "enriched_frame rs =
     \<lparr>rows = rs,
      has_Supplier_iso_a3 = list_ex (\<lambda>r. sets_iso_a3 (Supplier_region_type r)) rs,
      has_Recipient_iso_a3 = list_ex (\<lambda>r. sets_iso_a3 (Recipient_region_type r)) rs\<rparr>"

text \<open>
  \<^verbatim>\<open>get_arms_trade_data\<close> after loading: region types, then codes, then the trailing
  asterisks are removed from the names.
\<close>

definition get_arms_trade_data ::
    "(string \<rightharpoonup> string) \<Rightarrow> (string \<rightharpoonup> string) \<Rightarrow> raw_row list \<Rightarrow> data_frame" where
  "get_arms_trade_data cm rm df =
     enriched_frame (map (enrich_row cm rm (assign_region_types df)) df)"

text \<open>The five region types.\<close>

definition region_types :: "string list" where
  "region_types = [''Country'', ''Former Country'', ''Organisation'', ''Rebel Group'', ''Unknown'']"

text \<open>The classification rules as the specification words them, in its order.\<close>

definition classify_spec :: "string \<Rightarrow> string" where
  "classify_spec name =
     (if str_in ''unknown'' name then ''Unknown''
      else if endswith name ''**'' then ''Organisation''
      else if endswith name ''*'' then ''Rebel Group''
      else if name \<in> set former_countries then ''Former Country''
      else ''Country'')"

subsection \<open>The signed logarithm\<close>

text \<open>\<^verbatim>\<open>np.log1p\<close> and \<^verbatim>\<open>np.sign(x) * np.log1p(np.abs(x))\<close>, on the reals.\<close>

definition log1p :: "real \<Rightarrow> real" where
  "log1p x = ln (1 + x)"

definition signed_log :: "real \<Rightarrow> real" where
  "signed_log x = sgn x * log1p \<bar>x\<bar>"

text \<open>
  Modelled from the spec: the inverse transform \<open>sign(y) * (exp(|y|) - 1)\<close>; the
  repository has no function for it.
\<close>

definition signed_log_inverse :: "real \<Rightarrow> real" where
  "signed_log_inverse y = sgn y * (exp \<bar>y\<bar> - 1)"

subsection \<open>The query (\<^verbatim>\<open>MapPlotter.__init__\<close>)\<close>

text \<open>
  The activity is one of the four strings the user interface offers; the year is the
  string \<^verbatim>\<open>'Overall'\<close> or a year, which the code converts with \<^verbatim>\<open>int\<close>.
\<close>

datatype activity = ActSupplied | ActReceived | ActNetBalance | ActTotalActivity

datatype year_filter = Overall | Year int

record query =
  activity :: activity
  year :: year_filter
  region_type :: string
  arms_category :: string
  unit :: string
  region :: "string option"

datatype error =
  Exception string | ValueError string | IndexError string | KeyError string
  | AttributeError string

subsection \<open>The aggregator: filtering\<close>

definition filter_data :: "query \<Rightarrow> trade_row list \<Rightarrow> trade_row list" where
  "filter_data q df =
     (let d1 = (case year q of Overall \<Rightarrow> df | Year y \<Rightarrow> filter (\<lambda>r. Order_year r = y) df);
          d2 = (if arms_category q \<noteq> ''All''
                then filter (\<lambda>r. Armament_category r = arms_category q) d1 else d1)
      in if truthy (region q) then
           (case activity q of
              ActSupplied \<Rightarrow>
                filter (\<lambda>r. Recipient_region_type r = region_type q)
                  (filter (\<lambda>r. Some (Supplier r) = region q) d2)
            | ActReceived \<Rightarrow> filter (\<lambda>r. Some (Recipient r) = region q) d2
            | _ \<Rightarrow> filter (\<lambda>r. Some (Supplier r) = region q \<or> Some (Recipient r) = region q) d2)
         else d2)"

subsection \<open>The aggregator: grouping\<close>

text \<open>
  An identity is the key of a grouping: name, map code and region type. A row of the
  aggregate carries the identity, the columns \<^verbatim>\<open>Supplied\<close> and \<^verbatim>\<open>Received\<close> (present
  in the two composite modes only), the column named by \<^verbatim>\<open>unit\<close> and its signed
  logarithm.
\<close>

type_synonym identity = "string \<times> string \<times> string"

record agg_row =
  Region :: string
  iso_a3 :: string
  Region_type :: string
  Supplied :: "real option"
  Received :: "real option"
  unit_value :: real
  log_unit :: real

definition supplier_key :: "trade_row \<Rightarrow> identity option" where
  "supplier_key r =
     (case Supplier_iso_a3 r of None \<Rightarrow> None
      | Some c \<Rightarrow> Some (Supplier r, c, Supplier_region_type r))"

definition recipient_key :: "trade_row \<Rightarrow> identity option" where
  "recipient_key r =
     (case Recipient_iso_a3 r of None \<Rightarrow> None
      | Some c \<Rightarrow> Some (Recipient r, c, Recipient_region_type r))"

text \<open>
  \<^verbatim>\<open>df.groupby([name, code, type])[unit].sum().reset_index()\<close>: one row per key, keys in
  ascending order; a row of the register with a null in a key column belongs to no
  group (\<open>key r = None\<close>).
\<close>

definition groupby_sum ::
    "(trade_row \<Rightarrow> identity option) \<Rightarrow> trade_row list \<Rightarrow> (identity \<times> real) list" where
  "groupby_sum key df =
     map (\<lambda>k. (k, sum_list (map units (filter (\<lambda>r. key r = Some k) df))))
       (sort (remdups (List.map_filter key df)))"

text \<open>
  \<^verbatim>\<open>pd.merge(left, right, how='outer', ...)\<close> on the three key columns: one row per key
  of either side, the value of a side that lacks the key null.
\<close>

definition outer_merge ::
    "(identity \<times> real) list \<Rightarrow> (identity \<times> real) list
       \<Rightarrow> (identity \<times> real option \<times> real option) list" where
  "outer_merge left right =
     map (\<lambda>k. (k, map_of left k, map_of right k))
       (sort (remdups (map fst left @ map fst right)))"

text \<open>\<^verbatim>\<open>fillna(0)\<close> on a value cell.\<close>

fun fillna0 :: "real option \<Rightarrow> real" where
  "fillna0 None = 0"
| "fillna0 (Some v) = v"

text \<open>The row of a single-quantity mode, after the columns are renamed.\<close>

definition single_row :: "identity \<times> real \<Rightarrow> agg_row" where
  "single_row kv =
     (case kv of ((n, c, t), v) \<Rightarrow>
        \<lparr>Region = n, iso_a3 = c, Region_type = t, Supplied = None, Received = None,
         unit_value = v, log_unit = signed_log v\<rparr>)"

text \<open>
  The row of a composite mode: nulls filled with 0, the identity taken from the side
  that has it, and the displayed quantity computed by \<open>f\<close> from the columns
  \<^verbatim>\<open>Supplied\<close> and \<^verbatim>\<open>Received\<close>.
\<close>

definition composite_row ::
    "(real \<Rightarrow> real \<Rightarrow> real) \<Rightarrow> identity \<times> real option \<times> real option \<Rightarrow> agg_row" where
  "composite_row f ksr =
     (case ksr of ((n, c, t), s, v) \<Rightarrow>
        \<lparr>Region = n, iso_a3 = c, Region_type = t,
         Supplied = Some (fillna0 s), Received = Some (fillna0 v),
         unit_value = f (fillna0 s) (fillna0 v),
         log_unit = signed_log (f (fillna0 s) (fillna0 v))\<rparr>)"

definition calculate_totals_global :: "query \<Rightarrow> trade_row list \<Rightarrow> agg_row list" where
  "calculate_totals_global q df =
     (case activity q of
        ActSupplied \<Rightarrow> map single_row (groupby_sum supplier_key df)
      | ActReceived \<Rightarrow> map single_row (groupby_sum recipient_key df)
      | ActNetBalance \<Rightarrow>
          map (composite_row (\<lambda>supplied received. supplied - received))
            (outer_merge (groupby_sum supplier_key df) (groupby_sum recipient_key df))
      | ActTotalActivity \<Rightarrow>
          map (composite_row (\<lambda>supplied received. supplied + received))
            (outer_merge (groupby_sum supplier_key df) (groupby_sum recipient_key df)))"

text \<open>
  In the focus path the grouping by supplier is again the column \<^verbatim>\<open>Supplied\<close> and
  the grouping by recipient the column \<^verbatim>\<open>Received\<close>; the net balance is
  \<^verbatim>\<open>Received - Supplied\<close>. The row of the focus region itself is dropped.
\<close>

definition calculate_totals_for_region :: "query \<Rightarrow> trade_row list \<Rightarrow> agg_row list" where
  "calculate_totals_for_region q df =
     (let d = (case activity q of
                 ActSupplied \<Rightarrow> map single_row (groupby_sum recipient_key df)
               | ActReceived \<Rightarrow> map single_row (groupby_sum supplier_key df)
               | ActNetBalance \<Rightarrow>
                   map (composite_row (\<lambda>supplied received. received - supplied))
                     (outer_merge (groupby_sum supplier_key df) (groupby_sum recipient_key df))
               | ActTotalActivity \<Rightarrow>
                   map (composite_row (\<lambda>supplied received. supplied + received))
                     (outer_merge (groupby_sum supplier_key df) (groupby_sum recipient_key df)))
      in if truthy (region q) then filter (\<lambda>r. Some (Region r) \<noteq> region q) d else d)"

definition filter_region_type :: "query \<Rightarrow> agg_row list \<Rightarrow> agg_row list" where
  "filter_region_type q d =
     (if region_type q \<noteq> ''All regions'' then
        (if region_type q = ''Country''
         then filter (\<lambda>r. Region_type r \<in> set [''Country'', ''Former Country'']) d
         else filter (\<lambda>r. Region_type r = region_type q) d)
      else d)"

text \<open>The aggregate before it is joined to the map.\<close>

definition aggregate_rows :: "query \<Rightarrow> trade_row list \<Rightarrow> agg_row list" where
  "aggregate_rows q df =
     filter_region_type q
       (if truthy (region q) then calculate_totals_for_region q (filter_data q df)
        else calculate_totals_global q (filter_data q df))"

text \<open>
  The groupings of \<^verbatim>\<open>calculate_totals_*\<close> read the code column of the side they group by,
  and \<^verbatim>\<open>groupby\<close> raises \<^verbatim>\<open>KeyError\<close> when the frame lacks that column, also when the
  frame has no rows. The supplier side is grouped for Supplied without focus and for
  Received with focus, the recipient side for the two other single modes, and both
  sides, the supplier side first, in the composite modes.
\<close>

definition groupby_key_error :: "query \<Rightarrow> data_frame \<Rightarrow> error option" where
  "groupby_key_error q df =
     (let focus = truthy (region q);
          by_supplier = (case activity q of ActSupplied \<Rightarrow> \<not> focus | ActReceived \<Rightarrow> focus
                         | _ \<Rightarrow> True);
          by_recipient = (case activity q of ActSupplied \<Rightarrow> focus | ActReceived \<Rightarrow> \<not> focus
                          | _ \<Rightarrow> True)
      in if by_supplier \<and> \<not> has_Supplier_iso_a3 df then Some (KeyError ''Supplier_iso_a3'')
         else if by_recipient \<and> \<not> has_Recipient_iso_a3 df then Some (KeyError ''Recipient_iso_a3'')
         else None)"

text \<open>
  The call of \<^verbatim>\<open>calculate_totals_for_region\<close> or \<^verbatim>\<open>calculate_totals_global\<close> in
  \<^verbatim>\<open>prepare_plot_data\<close>, on the filtered frame: the exception of the grouping, or the
  table that the function computes from the rows.
\<close>

definition calculate_totals :: "query \<Rightarrow> data_frame \<Rightarrow> error + agg_row list" where
  "calculate_totals q fd =
     (case groupby_key_error q fd of
        Some e \<Rightarrow> Inl e
      | None \<Rightarrow>
          Inr (if truthy (region q) then calculate_totals_for_region q (rows fd)
               else calculate_totals_global q (rows fd)))"

subsection \<open>The aggregator: the join with the world map\<close>

text \<open>
  A row of the boundary data set, without its geometry (only the overlay reads it).
\<close>

record world_row =
  continent :: string
  name :: string
  w_iso_a3 :: string

definition get_world_map_data :: "world_row list \<Rightarrow> world_row list" where
  "get_world_map_data naturalearth_lowres = filter (\<lambda>w. name w \<noteq> ''Antarctica'') naturalearth_lowres"

text \<open>
  A row of the joined frame: the world row and, when an aggregate row has its code,
  that row; \<open>None\<close> stands for nulls in all columns of the aggregate.
\<close>

type_synonym plot_row = "world_row \<times> agg_row option"

definition left_merge :: "world_row list \<Rightarrow> agg_row list \<Rightarrow> plot_row list" where
  "left_merge world d =
     concat (map (\<lambda>w. case filter (\<lambda>a. iso_a3 a = w_iso_a3 w) d of
                        [] \<Rightarrow> [(w, None)]
                      | ms \<Rightarrow> map (\<lambda>a. (w, Some a)) ms) world)"

definition merge_geolocation_data :: "world_row list \<Rightarrow> agg_row list \<Rightarrow> plot_row list" where
  "merge_geolocation_data world d =
     map (\<lambda>(w, a). (w, map_option (\<lambda>a. if Region_type a \<in> set [''Country'', ''Former Country'']
                                         then a\<lparr>Region := name w\<rparr> else a) a))
       (left_merge world d)"

text \<open>The columns of the joined frame that the presenter reads.\<close>

definition col_unit :: "plot_row \<Rightarrow> real option" where
  "col_unit pr = map_option unit_value (snd pr)"

definition col_Supplied :: "plot_row \<Rightarrow> real option" where
  "col_Supplied pr = Option.bind (snd pr) Supplied"

definition col_Received :: "plot_row \<Rightarrow> real option" where
  "col_Received pr = Option.bind (snd pr) Received"

text \<open>
  \<^verbatim>\<open>get_region_iso_a3\<close>: the code of the focus region, from the first row of the whole
  register that has it as supplier; when that raises (no such row, or no supplier code
  column), from the first row that has it as recipient.
\<close>

definition get_region_iso_a3 :: "query \<Rightarrow> data_frame \<Rightarrow> error + string option" where
  "get_region_iso_a3 q df =
     (let attempt =
            (if \<not> has_Supplier_iso_a3 df
             then Inl (AttributeError ''Supplier_iso_a3'')
             else case filter (\<lambda>r. Some (Supplier r) = region q) (rows df) of
                    r # _ \<Rightarrow> Inr (Supplier_iso_a3 r)
                  | [] \<Rightarrow> Inl (IndexError ''index 0 is out of bounds for axis 0 with size 0''))
      in case attempt of
           Inr c \<Rightarrow> Inr c
         | Inl _ \<Rightarrow>
             (if \<not> has_Recipient_iso_a3 df
              then Inl (AttributeError ''Recipient_iso_a3'')
              else case filter (\<lambda>r. Some (Recipient r) = region q) (rows df) of
                     r # _ \<Rightarrow> Inr (Recipient_iso_a3 r)
                   | [] \<Rightarrow> Inl (IndexError ''index 0 is out of bounds for axis 0 with size 0'')))"

text \<open>
  \<^verbatim>\<open>prepare_plot_data\<close>: the joined frame and, with a focus region, the attribute
  \<^verbatim>\<open>iso_a3\<close> of the plotter (\<open>None\<close> when it is not assigned).
\<close>

definition prepare_plot_data ::
    "world_row list \<Rightarrow> data_frame \<Rightarrow> query \<Rightarrow> error + (plot_row list \<times> string option option)" where
  "prepare_plot_data world df q =
     (case calculate_totals q (df\<lparr>rows := filter_data q (rows df)\<rparr>) of
        Inl e \<Rightarrow> Inl e
      | Inr t \<Rightarrow>
          (let d = filter_region_type q t
           in if length d = 0 then Inl (Exception ''No data for selected filters.'')
              else if truthy (region q) then
                (case get_region_iso_a3 q df of
                   Inl e \<Rightarrow> Inl e
                 | Inr c \<Rightarrow> Inr (merge_geolocation_data world d, Some c))
              else Inr (merge_geolocation_data world d, None)))"

subsection \<open>The presenter: colour bar ticks\<close>

text \<open>
  \<^verbatim>\<open>self.data[self.unit].abs().max()\<close>: the maximum over the cells that are not null,
  and null (\<^verbatim>\<open>NaN\<close>) when there is none.
\<close>

definition max_abs_value :: "plot_row list \<Rightarrow> real option" where
  "max_abs_value d =
     (case List.map_filter col_unit d of
        [] \<Rightarrow> None
      | v # vs \<Rightarrow> Some (fold max (map abs vs) \<bar>v\<bar>))"

text \<open>\<^verbatim>\<open>rint\<close>: the nearest integer, a tie going to the even one.\<close>

definition round_half_even :: "real \<Rightarrow> int" where
  "round_half_even y =
     (let f = \<lfloor>y\<rfloor>
      in if y - of_int f < 1 / 2 then f
         else if 1 / 2 < y - of_int f then f + 1
         else if even f then f else f + 1)"

text \<open>
  \<^verbatim>\<open>round(x, ndigits)\<close> of a floating point number: the value is scaled by the power of
  ten, rounded to the nearest integer and scaled back.
\<close>

definition py_round :: "real \<Rightarrow> int \<Rightarrow> real" where
  "py_round x ndigits =
     (if 0 \<le> ndigits
      then of_int (round_half_even (x * 10 ^ nat ndigits)) / 10 ^ nat ndigits
      else of_int (round_half_even (x / 10 ^ nat (- ndigits))) * 10 ^ nat (- ndigits))"

text \<open>\<^verbatim>\<open>int(y)\<close> of a float: truncation towards zero.\<close>

definition py_int :: "real \<Rightarrow> int" where
  "py_int y = (if 0 \<le> y then \<lfloor>y\<rfloor> else \<lceil>y\<rceil>)"

text \<open>
  The three assignments to \<^verbatim>\<open>max_abs_value\<close>, for a maximum that is not zero:
  \<^verbatim>\<open>round(m, -int(math.floor(math.log10(abs(m)))))\<close>, then
  \<^verbatim>\<open>10 ** (int(math.log10(m) + 1))\<close>, then the list of
  \<^verbatim>\<open>10**i for i in range(1, int(math.log10(m) + 1))\<close>.
\<close>

definition round_leading :: "real \<Rightarrow> real" where
  "round_leading m = py_round m (- \<lfloor>log 10 \<bar>m\<bar>\<rfloor>)"

definition upper_bound :: "real \<Rightarrow> real" where
  "upper_bound m = 10 powr real_of_int (py_int (log 10 (round_leading m) + 1))"

definition powers_of_10 :: "real \<Rightarrow> int list" where
  "powers_of_10 m =
     map (\<lambda>i. 10 ^ i) [1 ..< nat (py_int (log 10 (upper_bound m) + 1))]"

text \<open>
  \<^verbatim>\<open>get_cbar_ticks\<close>: tick positions and tick labels. \<^verbatim>\<open>math.floor\<close> raises on a null
  maximum and \<^verbatim>\<open>math.log10\<close> on the maximum 0.
\<close>

definition get_cbar_ticks :: "query \<Rightarrow> plot_row list \<Rightarrow> error + (real list \<times> int list)" where
  "get_cbar_ticks q d =
     (case max_abs_value d of
        None \<Rightarrow> Inl (ValueError ''cannot convert float NaN to integer'')
      | Some m \<Rightarrow>
          if m = 0 then Inl (ValueError ''math domain error'')
          else if activity q = ActNetBalance then
            (let powers_of_10_pos = powers_of_10 m;
                 powers_of_10_neg = map uminus powers_of_10_pos;
                 ps = sort (powers_of_10_neg @ [0] @ powers_of_10_pos)
             in Inr (map (\<lambda>x. signed_log (real_of_int x)) ps, ps))
          else
            (let ps = powers_of_10 m
             in Inr (map (\<lambda>x. signed_log (real_of_int x)) ps, ps)))"

subsection \<open>The presenter: title, colour scale and hover text\<close>

datatype color_scale = Blues | Reds | RdBu | Magenta

record plot_dict =
  color_scale :: color_scale
  title :: string
  hovertemplate :: string
  customdata :: "real option list list"
  cbar_tickvals :: "real list"
  cbar_ticktext :: "int list"

definition get_plot_dict_global :: "query \<Rightarrow> plot_row list \<Rightarrow> error + plot_dict" where
  "get_plot_dict_global q d =
     (let title0 = py_str (region q) @ '' - '';
          title1 = (case year q of Overall \<Rightarrow> title0 | Year y \<Rightarrow> title0 @ str_int y @ '' - '');
          (scale, title2, hover, custom) =
            (case activity q of
               ActSupplied \<Rightarrow>
                 (Blues, title1 @ ''Weapons Supplied to other regions'',
                  ''<b>%{location}</b><br>'' @ unit q @ '': %{customdata:.2f}<extra></extra>'',
                  map (\<lambda>r. [col_unit r]) d)
             | ActReceived \<Rightarrow>
                 (Reds, title1 @ ''Weapons Received from other regions'',
                  ''<b>%{location}</b><br>'' @ unit q @ '': %{customdata:.2f}<extra></extra>'',
                  map (\<lambda>r. [col_unit r]) d)
             | ActNetBalance \<Rightarrow>
                 (RdBu, title1 @ ''Net Balance (Supplied - Received)'',
                  ''<b>%{location}</b><br>'' @ unit q @ '': %{customdata[0]:.2f}<br>Supplied by ''
                    @ py_str (region q)
                    @ '': %{customdata[1]:.2f}<br>Received from other regions: %{customdata[2]:.2f}<extra></extra>'',
                  map (\<lambda>r. [col_unit r, col_Supplied r, col_Received r]) d)
             | ActTotalActivity \<Rightarrow>
                 (Magenta, title1 @ ''Total Activity (Supplied + Received)'',
                  ''<b>%{location}</b><br>'' @ unit q @ '': %{customdata[0]:.2f}<br>Supplied by ''
                    @ py_str (region q)
                    @ '': %{customdata[1]:.2f}<br>Received from other regions: %{customdata[2]:.2f}<extra></extra>'',
                  map (\<lambda>r. [col_unit r, col_Supplied r, col_Received r]) d));
          title3 = (if arms_category q \<noteq> ''All'' then title2 @ '' - '' @ arms_category q else title2)
      in case get_cbar_ticks q d of
           Inl e \<Rightarrow> Inl e
         | Inr (tickvals, ticktext) \<Rightarrow>
             Inr \<lparr>color_scale = scale, title = title3, hovertemplate = hover,
                  customdata = custom, cbar_tickvals = tickvals, cbar_ticktext = ticktext\<rparr>)"

definition get_plot_dict_for_region :: "query \<Rightarrow> plot_row list \<Rightarrow> error + plot_dict" where
  "get_plot_dict_for_region q d =
     (let title0 = [];
          title1 = (case year q of Overall \<Rightarrow> title0 | Year y \<Rightarrow> title0 @ str_int y @ '' - '');
          (scale, title2, hover, custom) =
            (case activity q of
               ActSupplied \<Rightarrow>
                 (Blues, title1 @ ''Weapons Supplied'',
                  ''<b>%{location}</b><br>'' @ unit q @ '': %{customdata:.2f}<extra></extra>'',
                  map (\<lambda>r. [col_unit r]) d)
             | ActReceived \<Rightarrow>
                 (Reds, title1 @ ''Weapons Received'',
                  ''<b>%{location}</b><br>'' @ unit q @ '': %{customdata:.2f}<extra></extra>'',
                  map (\<lambda>r. [col_unit r]) d)
             | ActNetBalance \<Rightarrow>
                 (RdBu, title1 @ ''Net Balance (Supplied - Received)'',
                  ''<b>%{location}</b><br>'' @ unit q
                    @ '': %{customdata[0]:.2f}<br>Supplied: %{customdata[1]:.2f}<br>Received: %{customdata[2]:.2f}<extra></extra>'',
                  map (\<lambda>r. [col_unit r, col_Supplied r, col_Received r]) d)
             | ActTotalActivity \<Rightarrow>
                 (Magenta, title1 @ ''Total Activity (Supplied + Received)'',
                  ''<b>%{location}</b><br>'' @ unit q
                    @ '': %{customdata[0]:.2f}<br>Supplied: %{customdata[1]:.2f}<br>Received: %{customdata[2]:.2f}<extra></extra>'',
                  map (\<lambda>r. [col_unit r, col_Supplied r, col_Received r]) d));
          title3 = (if arms_category q \<noteq> ''All'' then title2 @ '' - '' @ arms_category q else title2)
      in case get_cbar_ticks q d of
           Inl e \<Rightarrow> Inl e
         | Inr (tickvals, ticktext) \<Rightarrow>
             Inr \<lparr>color_scale = scale, title = title3, hovertemplate = hover,
                  customdata = custom, cbar_tickvals = tickvals, cbar_ticktext = ticktext\<rparr>)"

text \<open>
  \<^verbatim>\<open>plot_choropleth\<close> up to the call of the rendering library: the joined frame and
  the dictionary the figure is drawn from. With a focus region it calls
  \<^verbatim>\<open>get_plot_dict_for_region\<close>, without one \<^verbatim>\<open>get_plot_dict_global\<close>.
\<close>

definition plot_choropleth ::
    "world_row list \<Rightarrow> data_frame \<Rightarrow> query \<Rightarrow> error + (plot_row list \<times> plot_dict)" where
  "plot_choropleth world df q =
     (case prepare_plot_data world df q of
        Inl e \<Rightarrow> Inl e
      | Inr (d, sel) \<Rightarrow>
          (case (if truthy (region q) then get_plot_dict_for_region q d
                 else get_plot_dict_global q d) of
             Inl e \<Rightarrow> Inl e
           | Inr pd \<Rightarrow> Inr (d, pd)))"

subsection \<open>Notions used in the statements\<close>

text \<open>
  The identity of an aggregate row; the total of one direction for an identity (the sum
  of the quantity over the rows of a frame that have the identity as their key); the
  identities that a grouping has, which are those with a map code.
\<close>

definition identity_of :: "agg_row \<Rightarrow> identity" where
  "identity_of a = (Region a, iso_a3 a, Region_type a)"

definition direction_total ::
    "(trade_row \<Rightarrow> identity option) \<Rightarrow> trade_row list \<Rightarrow> identity \<Rightarrow> real" where
  "direction_total key df k = sum_list (map units (filter (\<lambda>r. key r = Some k) df))"

definition group_keys :: "(trade_row \<Rightarrow> identity option) \<Rightarrow> trade_row list \<Rightarrow> identity set" where
  "group_keys key df = {k. \<exists>r \<in> set df. key r = Some k}"





text \<open>The keys of the outer join and the row it has for a key, written out.\<close>

definition merged_keys :: "trade_row list \<Rightarrow> identity list" where
  "merged_keys df =
     sort (remdups (map fst (groupby_sum supplier_key df) @ map fst (groupby_sum recipient_key df)))"

definition composite_of :: "(real \<Rightarrow> real \<Rightarrow> real) \<Rightarrow> trade_row list \<Rightarrow> identity \<Rightarrow> agg_row" where
  "composite_of f df k =
     \<lparr>Region = fst k, iso_a3 = fst (snd k), Region_type = snd (snd k),
      Supplied = Some (direction_total supplier_key df k),
      Received = Some (direction_total recipient_key df k),
      unit_value = f (direction_total supplier_key df k) (direction_total recipient_key df k),
      log_unit = signed_log
        (f (direction_total supplier_key df k) (direction_total recipient_key df k))\<rparr>"

text \<open>
  The exponent of the leading digit of a value, the exponent of the upper bound of the
  colour bar, and the tick labels written out: the powers of ten from 10 to the upper
  bound, mirrored around 0 for the net balance.
\<close>

definition lead_exp :: "real \<Rightarrow> int" where
  "lead_exp m = \<lfloor>log 10 \<bar>m\<bar>\<rfloor>"

definition bound_exp :: "real \<Rightarrow> int" where
  "bound_exp m = lead_exp (round_leading m) + 1"


text \<open>The phrase of the title, by activity and by whether a focus region is set.\<close>

definition activity_phrase :: "bool \<Rightarrow> activity \<Rightarrow> string" where
  "activity_phrase focus a =
     (case a of
        ActSupplied \<Rightarrow> if focus then ''Weapons Supplied'' else ''Weapons Supplied to other regions''
      | ActReceived \<Rightarrow> if focus then ''Weapons Received'' else ''Weapons Received from other regions''
      | ActNetBalance \<Rightarrow> ''Net Balance (Supplied - Received)''
      | ActTotalActivity \<Rightarrow> ''Total Activity (Supplied + Received)'')"

text \<open>The rows that the left join has for one row of the world map.\<close>

definition join_rows :: "agg_row list \<Rightarrow> world_row \<Rightarrow> plot_row list" where
  "join_rows d w =
     (case filter (\<lambda>a. iso_a3 a = w_iso_a3 w) d of
        [] \<Rightarrow> [(w, None)]
      | ms \<Rightarrow> map (\<lambda>a. (w, Some a)) ms)"

subsection \<open>Example data\<close>

text \<open>
  The one-row register of the scenarios, further rows (a former country with the code
  of Russia, an unknown supplier, an unknown recipient, a country that the name
  matcher does not find, a transfer with the quantity 0.05), and a small world map.
\<close>

definition row_rus_ind :: trade_row where
  "row_rus_ind =
     \<lparr>Supplier = ''Russia'', Recipient = ''India'', Order_year = 2020,
      Armament_category = ''Aircraft'', units = 50,
      Supplier_region_type = ''Country'', Recipient_region_type = ''Country'',
      Supplier_iso_a3 = Some ''RUS'', Recipient_iso_a3 = Some ''IND''\<rparr>"

definition row_sov_ind :: trade_row where
  "row_sov_ind =
     \<lparr>Supplier = ''Soviet Union'', Recipient = ''India'', Order_year = 1980,
      Armament_category = ''Aircraft'', units = 30,
      Supplier_region_type = ''Former Country'', Recipient_region_type = ''Country'',
      Supplier_iso_a3 = Some ''RUS'', Recipient_iso_a3 = Some ''IND''\<rparr>"

definition row_unk_ind :: trade_row where
  "row_unk_ind =
     \<lparr>Supplier = ''unknown supplier(s)'', Recipient = ''India'', Order_year = 2020,
      Armament_category = ''Aircraft'', units = 7,
      Supplier_region_type = ''Unknown'', Recipient_region_type = ''Country'',
      Supplier_iso_a3 = None, Recipient_iso_a3 = Some ''IND''\<rparr>"

definition row_rus_unk :: trade_row where
  "row_rus_unk =
     \<lparr>Supplier = ''Russia'', Recipient = ''unknown recipient(s)'', Order_year = 2020,
      Armament_category = ''Aircraft'', units = 50,
      Supplier_region_type = ''Country'', Recipient_region_type = ''Unknown'',
      Supplier_iso_a3 = Some ''RUS'', Recipient_iso_a3 = None\<rparr>"

definition row_atl_ind :: trade_row where
  "row_atl_ind =
     \<lparr>Supplier = ''Atlantis'', Recipient = ''India'', Order_year = 1990,
      Armament_category = ''Ships'', units = 3,
      Supplier_region_type = ''Country'', Recipient_region_type = ''Country'',
      Supplier_iso_a3 = None, Recipient_iso_a3 = Some ''IND''\<rparr>"


text \<open>The raw rows that the classifier turns into these rows, and its table of country codes.\<close>

definition raw_row_of :: "trade_row \<Rightarrow> raw_row" where
  "raw_row_of r =
     \<lparr>Supplier = Supplier r, Recipient = Recipient r, Order_year = Order_year r,
      Armament_category = Armament_category r, units = units r\<rparr>"

definition example_country_mapping :: "string \<rightharpoonup> string" where
  "example_country_mapping = map_of [(''Russia'', ''RUS''), (''India'', ''IND'')]"

definition world3 :: "world_row list" where
  "world3 =
     [\<lparr>continent = ''Asia'', name = ''India'', w_iso_a3 = ''IND''\<rparr>,
      \<lparr>continent = ''Europe'', name = ''Russia'', w_iso_a3 = ''RUS''\<rparr>,
      \<lparr>continent = ''South America'', name = ''Brazil'', w_iso_a3 = ''BRA''\<rparr>]"

definition example_query :: "activity \<Rightarrow> year_filter \<Rightarrow> string option \<Rightarrow> query" where
  "example_query a y r =
     \<lparr>activity = a, year = y, region_type = ''All regions'', arms_category = ''All'',
      unit = ''Number ordered'', region = r\<rparr>"

text \<open>The joined frame of the first scenario of the specification.\<close>

definition scenario_frame :: "plot_row list" where
  "scenario_frame =
     fst (projr (prepare_plot_data world3 (enriched_frame [row_rus_ind])
       (example_query ActSupplied (Year 2020) None)))"

definition russia_focus_row :: agg_row where
  "russia_focus_row =
     \<lparr>Region = ''Russia'', iso_a3 = ''RUS'', Region_type = ''Country'',
      Supplied = Some 50, Received = Some 0, unit_value = - 50,
      log_unit = signed_log (- 50)\<rparr>"

definition russia_net_row :: agg_row where
  "russia_net_row =
     \<lparr>Region = ''Russia'', iso_a3 = ''RUS'', Region_type = ''Country'',
      Supplied = Some 50, Received = Some 0, unit_value = 50,
      log_unit = signed_log 50\<rparr>"

section \<open>Properties\<close>

subsection \<open>The signed logarithm\<close>

lemma signed_log_inverse_roundtrip: "signed_log_inverse (signed_log x) = x"
proof -
  consider "x = 0" | "0 < x" | "x < 0" by linarith
  then show ?thesis
  proof cases
    case 1
    then show ?thesis by (simp add: signed_log_inverse_def signed_log_def log1p_def)
  next
    case 2
    then have "0 < ln (1 + x)" by simp
    with 2 show ?thesis by (simp add: signed_log_inverse_def signed_log_def log1p_def)
  next
    case 3
    then have "0 < ln (1 - x)" by simp
    with 3 show ?thesis by (simp add: signed_log_inverse_def signed_log_def log1p_def)
  qed
qed

text \<open>
  Claim C5. On the real numbers, \<open>signed_log x\<close> is \<open>sgn x * ln (1 + \<bar>x\<bar>)\<close>, it maps 0
  to 0, it is odd, and the inverse transform of the specification undoes it. The
  equalities are exact here; the tolerance of the claim is what floating point
  rounding, which the model leaves out, adds to them.
\<close>

theorem signed_log_properties:
  "signed_log x = sgn x * ln (1 + \<bar>x\<bar>)
   \<and> signed_log 0 = 0
   \<and> signed_log (- x) = - signed_log x
   \<and> signed_log_inverse (signed_log x) = x"
  by (simp add: signed_log_inverse_roundtrip) (simp add: signed_log_def log1p_def sgn_minus)

subsection \<open>Classification\<close>

lemma endswith_star2: "endswith s ''**'' \<Longrightarrow> endswith s ''*''"
  by (cases "rev s") (auto simp: endswith_def split: list.splits)

lemma former_plain:
  "n \<in> set former_countries \<Longrightarrow> \<not> str_in ''unknown'' n \<and> \<not> endswith n ''*''"
  by (auto simp: former_countries_def endswith_def)

lemma in_countries:
  "n \<in> set (countries (assign_region_types df)) \<longleftrightarrow>
     n \<in> set (map Supplier df) \<union> set (map Recipient df)
     \<and> \<not> str_in ''unknown'' n \<and> \<not> endswith n ''*'' \<and> n \<notin> set former_countries"
  by (auto simp: assign_region_types_def Let_def)

lemma in_orgs:
  "n \<in> set (orgs (assign_region_types df)) \<longleftrightarrow>
     n \<in> set (map Supplier df) \<union> set (map Recipient df)
     \<and> \<not> str_in ''unknown'' n \<and> endswith n ''**''"
  by (auto simp: assign_region_types_def Let_def)

lemma in_rebel_groups:
  "n \<in> set (rebel_groups (assign_region_types df)) \<longleftrightarrow>
     n \<in> set (map Supplier df) \<union> set (map Recipient df)
     \<and> \<not> str_in ''unknown'' n \<and> endswith n ''*'' \<and> \<not> endswith n ''**''"
  by (auto simp: assign_region_types_def Let_def)

lemma classify_spec_range: "classify_spec n \<in> set region_types"
  by (simp add: classify_spec_def region_types_def)

lemma get_region_type_range: "get_region_type st n \<in> set region_types"
  by (simp add: get_region_type_def region_types_def)

text \<open>
  Claim C6. For every register and every name that occurs in it as supplier or
  recipient, \<^verbatim>\<open>get_region_type\<close> returns the variant that the rules of the
  specification give, read in their order (unknown marker, double asterisk, single
  asterisk, the nine historical states, else Country); the result is one of the five
  variants, which are pairwise different. Being a function of the name lists and the
  name, the classification gives the same variant each time it is applied.
\<close>

theorem classification_total:
  assumes "n \<in> set (map Supplier df) \<union> set (map Recipient df)"
  shows "get_region_type (assign_region_types df) n = classify_spec n
         \<and> get_region_type (assign_region_types df) n \<in> set region_types
         \<and> distinct region_types"
proof -
  have eq: "get_region_type (assign_region_types df) n = classify_spec n"
    using assms former_plain [of n] endswith_star2 [of n]
    unfolding get_region_type_def classify_spec_def in_countries in_orgs in_rebel_groups
    by auto
  show ?thesis
    using eq classify_spec_range [of n] by (simp add: region_types_def)
qed

theorem classification_total_witness:
  "''NATO**'' \<in> set (map Supplier [\<lparr>Supplier = ''Russia'', Recipient = ''NATO**'',
        Order_year = 2020, Armament_category = ''Aircraft'', units = 50\<rparr>])
      \<union> set (map Recipient [\<lparr>Supplier = ''Russia'', Recipient = ''NATO**'',
        Order_year = 2020, Armament_category = ''Aircraft'', units = 50\<rparr>])
   \<and> get_region_type (assign_region_types
        [\<lparr>Supplier = ''Russia'', Recipient = ''NATO**'', Order_year = 2020,
          Armament_category = ''Aircraft'', units = 50\<rparr>]) ''NATO**'' = ''Organisation''"
  using classification_total [of "''NATO**''"
      "[\<lparr>Supplier = ''Russia'', Recipient = ''NATO**'', Order_year = 2020,
         Armament_category = ''Aircraft'', units = 50\<rparr>]"]
  by (simp add: classify_spec_def endswith_def)

subsection \<open>Grouping and the outer join\<close>

lemma set_map_filter_keys: "set (List.map_filter key df) = group_keys key df"
  by (auto simp: group_keys_def List.map_filter_def image_iff) force



lemma direction_total_no_key: "k \<notin> group_keys key df \<Longrightarrow> direction_total key df k = 0"
proof -
  assume "k \<notin> group_keys key df"
  then have "filter (\<lambda>r. key r = Some k) df = []"
    by (auto simp: group_keys_def filter_empty_conv)
  then show ?thesis by (simp add: direction_total_def)
qed

lemma map_of_groupby_sum:
  "map_of (groupby_sum key df) k =
     (if k \<in> group_keys key df then Some (direction_total key df k) else None)"
proof -
  have "map_of (groupby_sum key df) k =
        ((Some \<circ> direction_total key df) |` set (sort (remdups (List.map_filter key df)))) k"
    unfolding groupby_sum_def direction_total_def [abs_def]
    by (simp only: map_of_map_restrict)
  then show ?thesis
    by (simp add: restrict_map_def set_map_filter_keys)
qed

lemma fillna0_groupby_sum: "fillna0 (map_of (groupby_sum key df) k) = direction_total key df k"
  by (simp add: map_of_groupby_sum direction_total_no_key)



lemma composite_rows_eq:
  "map (composite_row f) (outer_merge (groupby_sum supplier_key df) (groupby_sum recipient_key df))
     = map (composite_of f df) (merged_keys df)"
  by (simp add: outer_merge_def merged_keys_def composite_row_def composite_of_def
        fillna0_groupby_sum split_beta)

lemma identity_of_composite_of [simp]: "identity_of (composite_of f df k) = k"
  by (simp add: identity_of_def composite_of_def)


lemma set_filter_region_type: "set (filter_region_type q d) \<subseteq> set d"
  by (auto simp: filter_region_type_def)

lemma global_net_rows:
  "activity q = ActNetBalance \<Longrightarrow>
   calculate_totals_global q fd = map (composite_of (\<lambda>s v. s - v) fd) (merged_keys fd)"
  by (simp add: calculate_totals_global_def composite_rows_eq)


lemma region_net_rows:
  "activity q = ActNetBalance \<Longrightarrow>
   calculate_totals_for_region q fd =
     (if truthy (region q)
      then filter (\<lambda>r. Some (Region r) \<noteq> region q) (map (composite_of (\<lambda>s v. v - s) fd) (merged_keys fd))
      else map (composite_of (\<lambda>s v. v - s) fd) (merged_keys fd))"
  by (simp add: calculate_totals_for_region_def composite_rows_eq)


lemma composite_of_fields [simp]:
  "Supplied (composite_of f fd k) = Some (direction_total supplier_key fd k)"
  "Received (composite_of f fd k) = Some (direction_total recipient_key fd k)"
  "unit_value (composite_of f fd k) = f (direction_total supplier_key fd k) (direction_total recipient_key fd k)"
  "Region (composite_of f fd k) = fst k"
  by (simp_all add: composite_of_def)

















lemma filter_data_focus:
  assumes "truthy (region q)" and "activity q = ActNetBalance \<or> activity q = ActTotalActivity"
    and "r \<in> set (filter_data q df)"
  shows "Some (Supplier r) = region q \<or> Some (Recipient r) = region q"
  using assms by (auto simp: filter_data_def Let_def split: if_splits year_filter.splits)

lemma supplier_key_name: "supplier_key r = Some k \<Longrightarrow> fst k = Supplier r"
  by (auto simp: supplier_key_def split: option.splits)

lemma recipient_key_name: "recipient_key r = Some k \<Longrightarrow> fst k = Recipient r"
  by (auto simp: recipient_key_def split: option.splits)

lemma identity_of_fst [simp]: "fst (identity_of a) = Region a"
  by (simp add: identity_of_def)

text \<open>
  Claim C1, as the code has it. With activity Net Balance every row of the aggregate
  carries the totals of its identity as supplier and as recipient; in the global view
  the net quantity is supplied minus received, in the focus view it is the column
  \<^verbatim>\<open>Received\<close> minus the column \<^verbatim>\<open>Supplied\<close> of the counterpart. In the focus view the
  rows in which the counterpart is recipient are supplies of the focus region, and the
  rows in which it is supplier are receipts of the focus region: in both views a
  positive quantity means that the subject supplied more than it received.
\<close>

theorem net_balance_sign_convention:
  assumes "activity q = ActNetBalance" and "a \<in> set (aggregate_rows q df)"
  shows "Supplied a = Some (direction_total supplier_key (filter_data q df) (identity_of a))
       \<and> Received a = Some (direction_total recipient_key (filter_data q df) (identity_of a))
       \<and> unit_value a =
           (if truthy (region q)
            then direction_total recipient_key (filter_data q df) (identity_of a)
                 - direction_total supplier_key (filter_data q df) (identity_of a)
            else direction_total supplier_key (filter_data q df) (identity_of a)
                 - direction_total recipient_key (filter_data q df) (identity_of a))
       \<and> (truthy (region q) \<longrightarrow>
            (\<forall>r \<in> set (filter_data q df).
               (supplier_key r = Some (identity_of a) \<longrightarrow> Some (Recipient r) = region q)
               \<and> (recipient_key r = Some (identity_of a) \<longrightarrow> Some (Supplier r) = region q)))"
proof (cases "truthy (region q)")
  case False
  with assms(2) have "a \<in> set (calculate_totals_global q (filter_data q df))"
    using set_filter_region_type by (auto simp: aggregate_rows_def)
  with assms(1) False show ?thesis
    by (auto simp: global_net_rows)
next
  case True
  with assms(2) have mem: "a \<in> set (calculate_totals_for_region q (filter_data q df))"
    using set_filter_region_type by (auto simp: aggregate_rows_def)
  with assms(1) True have other: "Some (Region a) \<noteq> region q"
    by (auto simp: region_net_rows)
  have focus: "\<forall>r \<in> set (filter_data q df).
               (supplier_key r = Some (identity_of a) \<longrightarrow> Some (Recipient r) = region q)
               \<and> (recipient_key r = Some (identity_of a) \<longrightarrow> Some (Supplier r) = region q)"
  proof
    fix r assume r: "r \<in> set (filter_data q df)"
    have part: "Some (Supplier r) = region q \<or> Some (Recipient r) = region q"
      using filter_data_focus [OF True _ r] assms(1) by simp
    show "(supplier_key r = Some (identity_of a) \<longrightarrow> Some (Recipient r) = region q)
               \<and> (recipient_key r = Some (identity_of a) \<longrightarrow> Some (Supplier r) = region q)"
      using part other supplier_key_name [of r "identity_of a"]
        recipient_key_name [of r "identity_of a"]
      by auto
  qed
  from mem assms(1) True have
    "Supplied a = Some (direction_total supplier_key (filter_data q df) (identity_of a))
       \<and> Received a = Some (direction_total recipient_key (filter_data q df) (identity_of a))
       \<and> unit_value a = direction_total recipient_key (filter_data q df) (identity_of a)
                 - direction_total supplier_key (filter_data q df) (identity_of a)"
    by (auto simp: region_net_rows)
  with True focus show ?thesis by simp
qed

lemmas eval_defs = aggregate_rows_def filter_region_type_def calculate_totals_global_def
  calculate_totals_for_region_def filter_data_def groupby_sum_def outer_merge_def
  supplier_key_def recipient_key_def List.map_filter_def composite_row_def single_row_def
  row_rus_ind_def row_sov_ind_def example_query_def

text \<open>
  Claim C1 as stated fails on the register with the single row Russia to India, 50
  units: in the global view the row of India has net quantity -50 and the row of Russia
  50; with the focus region India the row of Russia has \<^verbatim>\<open>Supplied\<close> 50, \<^verbatim>\<open>Received\<close> 0
  and net quantity -50.
\<close>

theorem net_balance_counterexample:
  "map Region (aggregate_rows (example_query ActNetBalance Overall None) [row_rus_ind])
     = [''India'', ''Russia'']
   \<and> map Supplied (aggregate_rows (example_query ActNetBalance Overall None) [row_rus_ind])
     = [Some 0, Some 50]
   \<and> map Received (aggregate_rows (example_query ActNetBalance Overall None) [row_rus_ind])
     = [Some 50, Some 0]
   \<and> map unit_value (aggregate_rows (example_query ActNetBalance Overall None) [row_rus_ind])
     = [- 50, 50]
   \<and> map Region (aggregate_rows (example_query ActNetBalance Overall (Some ''India'')) [row_rus_ind])
     = [''Russia'']
   \<and> map Supplied (aggregate_rows (example_query ActNetBalance Overall (Some ''India'')) [row_rus_ind])
     = [Some 50]
   \<and> map Received (aggregate_rows (example_query ActNetBalance Overall (Some ''India'')) [row_rus_ind])
     = [Some 0]
   \<and> map unit_value (aggregate_rows (example_query ActNetBalance Overall (Some ''India'')) [row_rus_ind])
     = [- 50]"
  by (simp add: eval_defs)

theorem net_balance_sign_convention_witness:
  "activity (example_query ActNetBalance Overall None) = ActNetBalance
   \<and> russia_net_row \<in> set (aggregate_rows (example_query ActNetBalance Overall None) [row_rus_ind])
   \<and> direction_total supplier_key
        (filter_data (example_query ActNetBalance Overall None) [row_rus_ind])
        (identity_of russia_net_row) = 50
   \<and> direction_total recipient_key
        (filter_data (example_query ActNetBalance Overall None) [row_rus_ind])
        (identity_of russia_net_row) = 0
   \<and> unit_value russia_net_row = 50 - 0
   \<and> truthy (region (example_query ActNetBalance Overall (Some ''India'')))
   \<and> russia_focus_row
        \<in> set (aggregate_rows (example_query ActNetBalance Overall (Some ''India'')) [row_rus_ind])
   \<and> row_rus_ind
        \<in> set (filter_data (example_query ActNetBalance Overall (Some ''India'')) [row_rus_ind])
   \<and> supplier_key row_rus_ind = Some (identity_of russia_focus_row)
   \<and> Some (Recipient row_rus_ind) = region (example_query ActNetBalance Overall (Some ''India''))
   \<and> direction_total supplier_key
        (filter_data (example_query ActNetBalance Overall (Some ''India'')) [row_rus_ind])
        (identity_of russia_focus_row) = 50
   \<and> unit_value russia_focus_row = 0 - 50"
  using net_balance_sign_convention [of "example_query ActNetBalance Overall None"
      russia_net_row "[row_rus_ind]"]
    net_balance_sign_convention [of "example_query ActNetBalance Overall (Some ''India'')"
      russia_focus_row "[row_rus_ind]"]
  by (simp add: eval_defs russia_net_row_def russia_focus_row_def identity_of_def)

lemmas frame_defs = enriched_frame_def sets_iso_a3_def calculate_totals_def
  groupby_key_error_def row_unk_ind_def row_rus_unk_def row_atl_ind_def



subsection \<open>The empty result\<close>

lemma groupby_sum_Nil [simp]: "groupby_sum key [] = []"
  by (simp add: groupby_sum_def List.map_filter_def)

lemma outer_merge_Nil [simp]: "outer_merge [] [] = []"
  by (simp add: outer_merge_def)

lemma calculate_totals_global_Nil [simp]: "calculate_totals_global q [] = []"
  by (simp add: calculate_totals_global_def split: activity.splits)

lemma calculate_totals_for_region_Nil [simp]: "calculate_totals_for_region q [] = []"
  by (simp add: calculate_totals_for_region_def split: activity.splits)

lemma filter_region_type_Nil [simp]: "filter_region_type q [] = []"
  by (simp add: filter_region_type_def)

lemma aggregate_rows_no_rows: "filter_data q df = [] \<Longrightarrow> aggregate_rows q df = []"
  by (simp add: aggregate_rows_def)

lemma filter_data_subset: "set (filter_data q df) \<subseteq> set df"
  by (auto simp: filter_data_def Let_def split: if_splits year_filter.splits activity.splits)

lemma filter_data_participates:
  assumes "truthy (region q)" and "r \<in> set (filter_data q df)"
  shows "Some (Supplier r) = region q \<or> Some (Recipient r) = region q"
  using assms
  by (auto simp: filter_data_def Let_def split: if_splits year_filter.splits activity.splits)

lemma groupby_key_error_rows [simp]:
  "groupby_key_error q (df\<lparr>rows := rs\<rparr>) = groupby_key_error q df"
  by (simp add: groupby_key_error_def Let_def)

lemma groupby_key_error_present:
  "has_Supplier_iso_a3 df \<Longrightarrow> has_Recipient_iso_a3 df \<Longrightarrow> groupby_key_error q df = None"
  by (simp add: groupby_key_error_def)

lemma prepare_plot_data_key_error:
  "groupby_key_error q df = Some e \<Longrightarrow> prepare_plot_data world df q = Inl e"
  by (simp add: prepare_plot_data_def calculate_totals_def)

lemma prepare_plot_data_grouped:
  assumes "groupby_key_error q df = None"
  shows "prepare_plot_data world df q =
     (if aggregate_rows q (rows df) = [] then Inl (Exception ''No data for selected filters.'')
      else if truthy (region q) then
        (case get_region_iso_a3 q df of
           Inl e \<Rightarrow> Inl e
         | Inr c \<Rightarrow> Inr (merge_geolocation_data world (aggregate_rows q (rows df)), Some c))
      else Inr (merge_geolocation_data world (aggregate_rows q (rows df)), None))"
  using assms
  by (auto simp: prepare_plot_data_def calculate_totals_def aggregate_rows_def Let_def
        split: sum.splits)

lemma get_region_iso_a3_ok:
  assumes "has_Supplier_iso_a3 df" and "has_Recipient_iso_a3 df"
    and "r \<in> set (rows df)"
    and "Some (Supplier r) = region q \<or> Some (Recipient r) = region q"
  shows "\<exists>c. get_region_iso_a3 q df = Inr c"
proof (cases "filter (\<lambda>r. Some (Supplier r) = region q) (rows df)")
  case (Cons x xs)
  then show ?thesis using assms(1) by (simp add: get_region_iso_a3_def)
next
  case Nil
  with assms(3,4) have "r \<in> set (filter (\<lambda>r. Some (Recipient r) = region q) (rows df))"
    by (auto simp: filter_empty_conv)
  then obtain y ys where "filter (\<lambda>r. Some (Recipient r) = region q) (rows df) = y # ys"
    by (cases "filter (\<lambda>r. Some (Recipient r) = region q) (rows df)") auto
  with Nil show ?thesis using assms(1,2) by (simp add: get_region_iso_a3_def)
qed

lemma get_region_iso_a3_nonempty:
  assumes "has_Supplier_iso_a3 df" and "has_Recipient_iso_a3 df"
    and "truthy (region q)" and "aggregate_rows q (rows df) \<noteq> []"
  shows "\<exists>c. get_region_iso_a3 q df = Inr c"
proof -
  from assms(4) have "filter_data q (rows df) \<noteq> []"
    using aggregate_rows_no_rows by blast
  then obtain r where r: "r \<in> set (filter_data q (rows df))"
    by (cases "filter_data q (rows df)") auto
  then have "r \<in> set (rows df)" using filter_data_subset by blast
  then show ?thesis
    using get_region_iso_a3_ok [OF assms(1,2)] filter_data_participates [OF assms(3) r] by blast
qed

text \<open>
  Claim C4, as the code has it. For a register with both code columns,
  \<^verbatim>\<open>prepare_plot_data\<close> fails if and only if the aggregate has no row after the row
  filter, the grouping and the region-type filter, which is the frame whose length the
  code tests; it then raises the exception with the message
  \<^verbatim>\<open>No data for selected filters.\<close> (with the full stop) and returns no frame. In
  particular it fails when the row filter leaves no row of the register. No other step
  fails: with a focus region and a non-empty aggregate, \<^verbatim>\<open>get_region_iso_a3\<close> finds the
  region.
\<close>

theorem empty_result_error:
  assumes "has_Supplier_iso_a3 df" and "has_Recipient_iso_a3 df"
  shows "(isl (prepare_plot_data world df q) \<longleftrightarrow> aggregate_rows q (rows df) = [])
   \<and> (isl (prepare_plot_data world df q) \<longrightarrow>
        prepare_plot_data world df q = Inl (Exception ''No data for selected filters.''))
   \<and> (filter_data q (rows df) = [] \<longrightarrow> isl (prepare_plot_data world df q))"
proof -
  have eq: "prepare_plot_data world df q =
     (if aggregate_rows q (rows df) = [] then Inl (Exception ''No data for selected filters.'')
      else if truthy (region q) then
        (case get_region_iso_a3 q df of
           Inl e \<Rightarrow> Inl e
         | Inr c \<Rightarrow> Inr (merge_geolocation_data world (aggregate_rows q (rows df)), Some c))
      else Inr (merge_geolocation_data world (aggregate_rows q (rows df)), None))"
    by (rule prepare_plot_data_grouped [OF groupby_key_error_present [OF assms]])
  show ?thesis
  proof (cases "aggregate_rows q (rows df) = []")
    case True
    then show ?thesis by (simp add: eq)
  next
    case False
    have "\<not> isl (prepare_plot_data world df q)"
    proof (cases "truthy (region q)")
      case True
      then obtain c where "get_region_iso_a3 q df = Inr c"
        using get_region_iso_a3_nonempty [OF assms] False by blast
      with False True show ?thesis by (simp add: eq)
    next
      case no: False
      with False show ?thesis by (simp add: eq)
    qed
    with False show ?thesis using aggregate_rows_no_rows by blast
  qed
qed

lemmas prepare_defs = prepare_plot_data_def get_region_iso_a3_def

theorem empty_result_error_witness:
  "has_Supplier_iso_a3 (enriched_frame [row_rus_ind])
   \<and> has_Recipient_iso_a3 (enriched_frame [row_rus_ind])
   \<and> aggregate_rows (example_query ActSupplied (Year 1900) None)
        (rows (enriched_frame [row_rus_ind])) = []
   \<and> prepare_plot_data world3 (enriched_frame [row_rus_ind])
        (example_query ActSupplied (Year 1900) None)
       = Inl (Exception ''No data for selected filters.'')"
  using empty_result_error [of "enriched_frame [row_rus_ind]" world3
      "example_query ActSupplied (Year 1900) None"]
  by (simp add: eval_defs frame_defs)

text \<open>The example frames are registers as the classifier enriches them.\<close>

lemmas enrich_defs = get_arms_trade_data_def enrich_row_def assign_region_types_def
  get_region_type_def iso_a3_code_def rstrip_star_def endswith_def former_countries_def
  raw_row_of_def example_country_mapping_def Let_def

lemma get_arms_trade_data_example:
  "get_arms_trade_data example_country_mapping Map.empty [raw_row_of row_rus_ind]
     = enriched_frame [row_rus_ind]"
  by (simp add: enrich_defs row_rus_ind_def)

lemma get_arms_trade_data_unknown_supplier:
  "get_arms_trade_data example_country_mapping Map.empty [raw_row_of row_unk_ind]
     = enriched_frame [row_unk_ind]"
  by (simp add: enrich_defs row_unk_ind_def)

lemma get_arms_trade_data_unknown_recipient:
  "get_arms_trade_data example_country_mapping Map.empty [raw_row_of row_rus_unk]
     = enriched_frame [row_rus_unk]"
  by (simp add: enrich_defs row_rus_unk_def)

lemma get_arms_trade_data_unmatched_country:
  "get_arms_trade_data example_country_mapping Map.empty
       [raw_row_of row_rus_ind, raw_row_of row_atl_ind]
     = enriched_frame [row_rus_ind, row_atl_ind]"
  by (simp add: enrich_defs row_rus_ind_def row_atl_ind_def)

text \<open>
  Claim C4 as stated fails in three ways. The message ends with a full stop, so it is not
  exactly \<^verbatim>\<open>No data for selected filters\<close> (the one-row register of 2020, year 1900).
  A register whose suppliers are all unknown has no supplier code column: the query for
  Supplied then fails with \<^verbatim>\<open>KeyError\<close> although one row passes the filters. And rows
  that pass the row filter do not prevent the failure: in the register with Russia to
  India (2020) and Atlantis to India (1990), Atlantis without map code, the query for
  Supplied in 1990 keeps one row of the register, the grouping drops it, and the query
  fails with the empty-result exception.
\<close>

theorem empty_result_counterexample:
  "prepare_plot_data world3 (enriched_frame [row_rus_ind])
       (example_query ActSupplied (Year 1900) None)
     = Inl (Exception ''No data for selected filters.'')
   \<and> prepare_plot_data world3 (enriched_frame [row_rus_ind])
       (example_query ActSupplied (Year 1900) None)
     \<noteq> Inl (Exception ''No data for selected filters'')
   \<and> filter_data (example_query ActSupplied Overall None)
       (rows (get_arms_trade_data example_country_mapping Map.empty [raw_row_of row_unk_ind]))
     = [row_unk_ind]
   \<and> prepare_plot_data world3
       (get_arms_trade_data example_country_mapping Map.empty [raw_row_of row_unk_ind])
       (example_query ActSupplied Overall None)
     = Inl (KeyError ''Supplier_iso_a3'')
   \<and> filter_data (example_query ActSupplied (Year 1990) None)
       (rows (get_arms_trade_data example_country_mapping Map.empty
          [raw_row_of row_rus_ind, raw_row_of row_atl_ind]))
     = [row_atl_ind]
   \<and> prepare_plot_data world3
       (get_arms_trade_data example_country_mapping Map.empty
          [raw_row_of row_rus_ind, raw_row_of row_atl_ind])
       (example_query ActSupplied (Year 1990) None)
     = Inl (Exception ''No data for selected filters.'')"
  unfolding get_arms_trade_data_unknown_supplier get_arms_trade_data_unmatched_country
  by (simp add: eval_defs frame_defs prepare_defs)

lemma enriched_recipient_type:
  "r \<in> set (rows (get_arms_trade_data cm rm raw)) \<Longrightarrow> Recipient_region_type r \<in> set region_types"
  by (auto simp: get_arms_trade_data_def enriched_frame_def enrich_row_def Let_def
        get_region_type_range)

lemma enriched_recipient_column:
  assumes "r \<in> set raw" and "\<not> str_in ''unknown'' (Recipient r)"
  shows "has_Recipient_iso_a3 (get_arms_trade_data cm rm raw)"
proof -
  have "Recipient r \<in> set (map Supplier raw) \<union> set (map Recipient raw)"
    using assms(1) by simp
  then have "get_region_type (assign_region_types raw) (Recipient r) = classify_spec (Recipient r)"
    using former_plain [of "Recipient r"] endswith_star2 [of "Recipient r"]
    unfolding get_region_type_def classify_spec_def in_countries in_orgs in_rebel_groups
    by auto
  then have "sets_iso_a3 (get_region_type (assign_region_types raw) (Recipient r))"
    using assms(2) by (simp add: classify_spec_def sets_iso_a3_def)
  then show ?thesis
    using assms(1)
    by (auto simp: get_arms_trade_data_def enriched_frame_def enrich_row_def Let_def
          list_ex_iff)
qed

text \<open>
  With a focus region, activity Supplied and the region-type filter \<^verbatim>\<open>All regions\<close>, the
  row filter compares the recipient's region type with the string \<^verbatim>\<open>All regions\<close> and
  keeps no row of a register that the classifier has enriched. When at least one
  recipient of the register is not marked unknown, so that the register has the
  recipient code column, \<^verbatim>\<open>prepare_plot_data\<close> raises the empty-result exception.
\<close>

lemma supplied_focus_all_regions_empty:
  assumes "truthy (region q)" and "activity q = ActSupplied"
    and "region_type q = ''All regions''"
  shows "filter_data q (rows (get_arms_trade_data cm rm raw)) = []"
proof -
  have nt: "''All regions'' \<notin> set region_types"
    by (simp add: region_types_def)
  have "\<forall>r \<in> set (rows (get_arms_trade_data cm rm raw)).
          Recipient_region_type r \<noteq> ''All regions''"
  proof
    fix r assume "r \<in> set (rows (get_arms_trade_data cm rm raw))"
    then have "Recipient_region_type r \<in> set region_types"
      by (rule enriched_recipient_type)
    with nt show "Recipient_region_type r \<noteq> ''All regions''" by metis
  qed
  then show ?thesis
    using assms
    by (auto simp: filter_data_def Let_def filter_empty_conv split: year_filter.splits)
qed

lemma supplied_focus_all_regions_fails:
  assumes "truthy (region q)" and "activity q = ActSupplied"
    and "region_type q = ''All regions''"
    and "\<exists>r \<in> set raw. \<not> str_in ''unknown'' (Recipient r)"
  shows "prepare_plot_data world (get_arms_trade_data cm rm raw) q
           = Inl (Exception ''No data for selected filters.'')"
proof -
  have empty: "filter_data q (rows (get_arms_trade_data cm rm raw)) = []"
    by (rule supplied_focus_all_regions_empty [OF assms(1-3)])
  have col: "has_Recipient_iso_a3 (get_arms_trade_data cm rm raw)"
    using assms(4) enriched_recipient_column by blast
  have "groupby_key_error q (get_arms_trade_data cm rm raw) = None"
    using assms(1,2) col by (simp add: groupby_key_error_def)
  from prepare_plot_data_grouped [OF this] empty show ?thesis
    by (simp add: aggregate_rows_no_rows)
qed

lemma supplied_focus_all_regions_key_error:
  assumes "truthy (region q)" and "activity q = ActSupplied"
    and "\<forall>r \<in> set raw. str_in ''unknown'' (Recipient r)"
  shows "prepare_plot_data world (get_arms_trade_data cm rm raw) q
           = Inl (KeyError ''Recipient_iso_a3'')"
proof -
  have "\<not> has_Recipient_iso_a3 (get_arms_trade_data cm rm raw)"
  proof
    assume "has_Recipient_iso_a3 (get_arms_trade_data cm rm raw)"
    then obtain r where r: "r \<in> set raw"
      and s: "sets_iso_a3 (get_region_type (assign_region_types raw) (Recipient r))"
      by (auto simp: get_arms_trade_data_def enriched_frame_def enrich_row_def Let_def
            list_ex_iff)
    have "Recipient r \<in> set (map Supplier raw) \<union> set (map Recipient raw)"
      using r by simp
    then have "get_region_type (assign_region_types raw) (Recipient r) = classify_spec (Recipient r)"
      using former_plain [of "Recipient r"] endswith_star2 [of "Recipient r"]
      unfolding get_region_type_def classify_spec_def in_countries in_orgs in_rebel_groups
      by auto
    with s assms(3) r show False
      by (simp add: classify_spec_def sets_iso_a3_def)
  qed
  then have "groupby_key_error q (get_arms_trade_data cm rm raw)
               = Some (KeyError ''Recipient_iso_a3'')"
    using assms(1,2) by (simp add: groupby_key_error_def)
  then show ?thesis by (rule prepare_plot_data_key_error)
qed

text \<open>
  Claim C10 does not hold of the code for a register whose recipients are all unknown.
  The row filter keeps no row, as the claim says; but the classifier's row function has
  no branch for the type Unknown, the register has no recipient code column, and the
  grouping by recipient raises \<^verbatim>\<open>KeyError\<close> before the length of the aggregate is
  tested. The register of the one row Russia to unknown recipient(s), queried with the
  focus region Russia:
\<close>

theorem supplied_focus_all_regions_raises_key_error:
  "truthy (region (example_query ActSupplied Overall (Some ''Russia'')))
   \<and> activity (example_query ActSupplied Overall (Some ''Russia'')) = ActSupplied
   \<and> region_type (example_query ActSupplied Overall (Some ''Russia'')) = ''All regions''
   \<and> filter_data (example_query ActSupplied Overall (Some ''Russia''))
       (rows (get_arms_trade_data example_country_mapping Map.empty [raw_row_of row_rus_unk]))
     = []
   \<and> prepare_plot_data world3
       (get_arms_trade_data example_country_mapping Map.empty [raw_row_of row_rus_unk])
       (example_query ActSupplied Overall (Some ''Russia''))
     = Inl (KeyError ''Recipient_iso_a3'')"
  unfolding get_arms_trade_data_unknown_recipient
  by (simp add: eval_defs frame_defs prepare_defs)

subsection \<open>The join with the world map\<close>

lemma left_merge_join_rows: "left_merge world d = concat (map (join_rows d) world)"
  by (simp add: left_merge_def join_rows_def [abs_def])

lemma join_rows_fst: "p \<in> set (join_rows d w) \<Longrightarrow> fst p = w"
  by (auto simp: join_rows_def split: list.splits)

lemma length_join_rows:
  "length (join_rows d w) = max 1 (length (filter (\<lambda>a. iso_a3 a = w_iso_a3 w) d))"
  by (simp add: join_rows_def split: list.splits)

lemma join_rows_nonempty: "join_rows d w \<noteq> []"
  by (simp add: join_rows_def split: list.splits)

lemma count_join_rows:
  "length (filter (\<lambda>p. w_iso_a3 (fst p) = c) (join_rows d w))
     = (if w_iso_a3 w = c then max 1 (length (filter (\<lambda>a. iso_a3 a = c) d)) else 0)"
proof (cases "w_iso_a3 w = c")
  case True
  then have "filter (\<lambda>p. w_iso_a3 (fst p) = c) (join_rows d w) = join_rows d w"
    by (auto simp: filter_id_conv dest: join_rows_fst)
  with True show ?thesis using length_join_rows [of d w] by simp
next
  case False
  then have "filter (\<lambda>p. w_iso_a3 (fst p) = c) (join_rows d w) = []"
    by (auto simp: filter_empty_conv dest: join_rows_fst)
  with False show ?thesis by simp
qed

lemma count_left_merge:
  "length (filter (\<lambda>p. w_iso_a3 (fst p) = c) (left_merge world d))
     = length (filter (\<lambda>w. w_iso_a3 w = c) world)
       * max 1 (length (filter (\<lambda>a. iso_a3 a = c) d))"
  unfolding left_merge_join_rows
  by (induction world) (simp_all add: count_join_rows)

lemma merge_geolocation_data_fst:
  "map fst (merge_geolocation_data world d) = map fst (left_merge world d)"
  by (simp add: merge_geolocation_data_def split_beta comp_def)

lemma filter_code_via_fst:
  "length (filter (\<lambda>p. w_iso_a3 (fst p) = c) xs) = length (filter (\<lambda>w. w_iso_a3 w = c) (map fst xs))"
  by (simp add: filter_map comp_def)

lemma count_merge_geolocation_data:
  "length (filter (\<lambda>p. w_iso_a3 (fst p) = c) (merge_geolocation_data world d))
     = length (filter (\<lambda>w. w_iso_a3 w = c) world)
       * max 1 (length (filter (\<lambda>a. iso_a3 a = c) d))"
  using count_left_merge [of c world d]
  by (simp only: filter_code_via_fst merge_geolocation_data_fst)

lemma set_fst_left_merge: "fst ` set (left_merge world d) = set world"
proof
  show "fst ` set (left_merge world d) \<subseteq> set world"
    by (auto simp: left_merge_join_rows dest: join_rows_fst)
next
  show "set world \<subseteq> fst ` set (left_merge world d)"
  proof
    fix w assume w: "w \<in> set world"
    obtain p where p: "p \<in> set (join_rows d w)"
      using join_rows_nonempty [of d w] by (cases "join_rows d w") auto
    then have "fst p = w" by (rule join_rows_fst)
    moreover have "p \<in> set (left_merge world d)"
      using w p by (auto simp: left_merge_join_rows)
    ultimately show "w \<in> fst ` set (left_merge world d)" by force
  qed
qed

lemma set_fst_merge_geolocation_data: "fst ` set (merge_geolocation_data world d) = set world"
proof -
  have "fst ` set (merge_geolocation_data world d) = set (map fst (merge_geolocation_data world d))"
    by simp
  also have "\<dots> = set (map fst (left_merge world d))"
    by (simp only: merge_geolocation_data_fst)
  also have "\<dots> = set world"
    using set_fst_left_merge [of world d] by simp
  finally show ?thesis .
qed

lemma join_rows_cells:
  assumes "p \<in> set (join_rows d w)"
  shows "(snd p = None \<and> \<not> (\<exists>a \<in> set d. iso_a3 a = w_iso_a3 w))
         \<or> (\<exists>a \<in> set d. iso_a3 a = w_iso_a3 w \<and> snd p = Some a)"
proof (cases "filter (\<lambda>a. iso_a3 a = w_iso_a3 w) d")
  case Nil
  then have "\<not> (\<exists>a \<in> set d. iso_a3 a = w_iso_a3 w)"
    by (auto simp: filter_empty_conv)
  with assms Nil show ?thesis by (simp add: join_rows_def)
next
  case (Cons x xs)
  with assms obtain a where "a \<in> set (filter (\<lambda>a. iso_a3 a = w_iso_a3 w) d)" and "p = (w, Some a)"
    by (auto simp: join_rows_def)
  then show ?thesis by auto
qed

lemma left_merge_cells:
  assumes "p \<in> set (left_merge world d)"
  shows "(snd p = None \<and> \<not> (\<exists>a \<in> set d. iso_a3 a = w_iso_a3 (fst p)))
         \<or> (\<exists>a \<in> set d. iso_a3 a = w_iso_a3 (fst p) \<and> snd p = Some a)"
proof -
  from assms obtain w where "w \<in> set world" and p: "p \<in> set (join_rows d w)"
    by (auto simp: left_merge_join_rows)
  from p have "fst p = w" by (rule join_rows_fst)
  with join_rows_cells [OF p] show ?thesis by simp
qed

lemma merge_geolocation_data_cells:
  assumes "p \<in> set (merge_geolocation_data world d)"
  shows "(snd p = None \<and> col_unit p = None \<and> col_Supplied p = None \<and> col_Received p = None
           \<and> \<not> (\<exists>a \<in> set d. iso_a3 a = w_iso_a3 (fst p)))
         \<or> (\<exists>a \<in> set d. iso_a3 a = w_iso_a3 (fst p) \<and> col_unit p = Some (unit_value a)
               \<and> col_Supplied p = Supplied a \<and> col_Received p = Received a)"
proof -
  from assms obtain p0 where p0: "p0 \<in> set (left_merge world d)"
    and p: "p = (fst p0, map_option (\<lambda>a. if Region_type a \<in> set [''Country'', ''Former Country'']
                                         then a\<lparr>Region := name (fst p0)\<rparr> else a) (snd p0))"
    by (auto simp: merge_geolocation_data_def split_beta)
  from left_merge_cells [OF p0] show ?thesis
  proof
    assume "snd p0 = None \<and> \<not> (\<exists>a \<in> set d. iso_a3 a = w_iso_a3 (fst p0))"
    with p show ?thesis by (simp add: col_unit_def col_Supplied_def col_Received_def)
  next
    assume "\<exists>a \<in> set d. iso_a3 a = w_iso_a3 (fst p0) \<and> snd p0 = Some a"
    then obtain a where "a \<in> set d" "iso_a3 a = w_iso_a3 (fst p0)" "snd p0 = Some a" by blast
    with p have "a \<in> set d \<and> iso_a3 a = w_iso_a3 (fst p) \<and> col_unit p = Some (unit_value a)
               \<and> col_Supplied p = Supplied a \<and> col_Received p = Received a"
      by (simp add: col_unit_def col_Supplied_def col_Received_def)
    then show ?thesis by blast
  qed
qed

lemma prepare_plot_data_Inr:
  assumes "prepare_plot_data world df q = Inr (d, sel)"
  shows "d = merge_geolocation_data world (aggregate_rows q (rows df))"
proof (cases "groupby_key_error q df")
  case (Some e)
  with assms show ?thesis by (simp add: prepare_plot_data_key_error)
next
  case None
  from assms show ?thesis
    unfolding prepare_plot_data_grouped [OF None]
    by (auto split: if_splits sum.splits)
qed

text \<open>
  Claim C2, as the code has it. When \<^verbatim>\<open>prepare_plot_data\<close> does not fail, the joined
  frame has the rows of the world map and no others; the number of its rows with a map
  code is the number of world rows with that code times the number of aggregate rows
  with it, or times one when there is none (so a region listed once appears exactly
  once unless several identities of the aggregate share its code); a row of a region
  without aggregate row has null in all columns of the aggregate, and a row with one
  carries the quantities of that aggregate row.
\<close>

theorem left_join_completeness:
  assumes "prepare_plot_data world df q = Inr (d, sel)"
  shows "fst ` set d = set world
    \<and> (\<forall>c. length (filter (\<lambda>p. w_iso_a3 (fst p) = c) d)
             = length (filter (\<lambda>w. w_iso_a3 w = c) world)
               * max 1 (length (filter (\<lambda>a. iso_a3 a = c) (aggregate_rows q (rows df)))))
    \<and> (\<forall>p \<in> set d.
          (snd p = None \<and> col_unit p = None \<and> col_Supplied p = None \<and> col_Received p = None
             \<and> \<not> (\<exists>a \<in> set (aggregate_rows q (rows df)). iso_a3 a = w_iso_a3 (fst p)))
          \<or> (\<exists>a \<in> set (aggregate_rows q (rows df)). iso_a3 a = w_iso_a3 (fst p)
                \<and> col_unit p = Some (unit_value a)
                \<and> col_Supplied p = Supplied a \<and> col_Received p = Received a))"
proof -
  have d: "d = merge_geolocation_data world (aggregate_rows q (rows df))"
    using assms by (rule prepare_plot_data_Inr)
  show ?thesis
    unfolding d
    using set_fst_merge_geolocation_data [of world "aggregate_rows q (rows df)"]
      count_merge_geolocation_data [of _ world "aggregate_rows q (rows df)"]
      merge_geolocation_data_cells [of _ world "aggregate_rows q (rows df)"]
    by blast
qed

lemmas join_defs = prepare_plot_data_def merge_geolocation_data_def left_merge_def
  get_region_iso_a3_def world3_def col_unit_def col_Supplied_def col_Received_def

text \<open>
  Claim C2 as stated fails twice. With the rows Russia to India and Soviet Union to
  India (both suppliers have the code RUS) and activity Supplied, the code RUS appears
  twice in the joined frame; and the regions without activity (India, Brazil) carry
  null, not 0, also in the one-row scenario of the specification.
\<close>

theorem left_join_counterexample:
  "\<not> isl (prepare_plot_data world3 (enriched_frame [row_rus_ind, row_sov_ind]) (example_query ActSupplied Overall None))
   \<and> map (w_iso_a3 \<circ> fst)
       (fst (projr (prepare_plot_data world3 (enriched_frame [row_rus_ind, row_sov_ind])
          (example_query ActSupplied Overall None))))
     = [''IND'', ''RUS'', ''RUS'', ''BRA'']
   \<and> map col_unit
       (fst (projr (prepare_plot_data world3 (enriched_frame [row_rus_ind, row_sov_ind])
          (example_query ActSupplied Overall None))))
     = [None, Some 50, Some 30, None]
   \<and> map (w_iso_a3 \<circ> fst)
       (fst (projr (prepare_plot_data world3 (enriched_frame [row_rus_ind])
          (example_query ActSupplied (Year 2020) None))))
     = [''IND'', ''RUS'', ''BRA'']
   \<and> map col_unit
       (fst (projr (prepare_plot_data world3 (enriched_frame [row_rus_ind])
          (example_query ActSupplied (Year 2020) None))))
     = [None, Some 50, None]"
  by (simp add: eval_defs frame_defs join_defs)

theorem left_join_completeness_witness:
  "prepare_plot_data world3 (enriched_frame [row_rus_ind, row_sov_ind]) (example_query ActSupplied Overall None)
     = Inr (fst (projr (prepare_plot_data world3 (enriched_frame [row_rus_ind, row_sov_ind])
              (example_query ActSupplied Overall None))), None)
   \<and> length (filter (\<lambda>p. w_iso_a3 (fst p) = ''RUS'')
        (fst (projr (prepare_plot_data world3 (enriched_frame [row_rus_ind, row_sov_ind])
              (example_query ActSupplied Overall None))))) = 1 * max 1 2"
  using left_join_completeness [of world3 "enriched_frame [row_rus_ind, row_sov_ind]"
      "example_query ActSupplied Overall None"
      "fst (projr (prepare_plot_data world3 (enriched_frame [row_rus_ind, row_sov_ind])
              (example_query ActSupplied Overall None)))" None]
  by (simp add: eval_defs frame_defs join_defs)

subsection \<open>Colour bar ticks\<close>

lemma lead_exp_bounds:
  assumes "0 < m"
  shows "10 powr real_of_int (lead_exp m) \<le> m \<and> m < 10 powr (real_of_int (lead_exp m) + 1)"
  using floor_log_eq_powr_iff [of m 10 "lead_exp m"] assms by (simp add: lead_exp_def)

lemma lead_exp_eqI:
  assumes "0 < m" and "10 powr real_of_int e \<le> m" and "m < 10 powr (real_of_int e + 1)"
  shows "lead_exp m = e"
  using floor_log_eq_powr_iff [of m 10 e] assms by (simp add: lead_exp_def)

lemma lead_exp_mono:
  assumes "0 < x" and "x \<le> y"
  shows "lead_exp x \<le> lead_exp y"
proof -
  have "log 10 x \<le> log 10 y" using assms by simp
  then show ?thesis using assms by (simp add: lead_exp_def floor_mono)
qed

lemma lead_exp_powr: "lead_exp (10 powr real_of_int e) = e"
  by (rule lead_exp_eqI) simp_all

lemma round_half_even_near: "\<bar>real_of_int (round_half_even y) - y\<bar> \<le> 1 / 2"
  unfolding round_half_even_def Let_def by (auto simp: abs_le_iff)

lemma round_half_even_ge: "1 \<le> y \<Longrightarrow> 1 \<le> round_half_even y"
  unfolding round_half_even_def Let_def by (auto simp: le_floor_iff)

lemma round_half_even_le: "y < 10 \<Longrightarrow> round_half_even y \<le> 10"
  unfolding round_half_even_def Let_def by (auto simp: floor_le_iff)

lemma py_round_scaled:
  "py_round x (- e) = real_of_int (round_half_even (x / 10 powr real_of_int e)) * 10 powr real_of_int e"
proof (cases "0 < e")
  case True
  then have "10 powr real_of_int e = (10::real) ^ nat e"
    by (simp add: powr_real_of_int)
  with True show ?thesis by (simp add: py_round_def)
next
  case False
  then have p: "10 powr real_of_int e = inverse ((10::real) ^ nat (- e))"
    by (cases "e = 0") (simp_all add: powr_real_of_int)
  from False show ?thesis
    by (simp add: py_round_def p field_simps)
qed

lemma round_leading_shape:
  assumes "0 < m"
  shows "\<exists>c::int. 1 \<le> c \<and> c \<le> 10
           \<and> round_leading m = real_of_int c * 10 powr real_of_int (lead_exp m)
           \<and> 2 * \<bar>round_leading m - m\<bar> \<le> 10 powr real_of_int (lead_exp m)"
proof -
  define p :: real where "p = 10 powr real_of_int (lead_exp m)"
  define c where "c = round_half_even (m / p)"
  have ppos: "0 < p" by (simp add: p_def)
  have b: "p \<le> m" "m < 10 * p"
    using lead_exp_bounds [OF assms] by (simp_all add: p_def powr_add)
  have y: "1 \<le> m / p" "m / p < 10"
    using b ppos by (simp_all add: field_simps)
  have rl: "round_leading m = real_of_int c * p"
    using assms py_round_scaled [of m "lead_exp m"]
    by (simp add: round_leading_def lead_exp_def c_def p_def)
  have "\<bar>real_of_int c - m / p\<bar> \<le> 1 / 2"
    unfolding c_def by (rule round_half_even_near)
  then have "\<bar>real_of_int c - m / p\<bar> * p \<le> (1 / 2) * p"
    using ppos by (intro mult_right_mono) simp_all
  moreover have "\<bar>real_of_int c - m / p\<bar> * p = \<bar>real_of_int c * p - m\<bar>"
  proof -
    have "real_of_int c * p - m = (real_of_int c - m / p) * p"
      using ppos by (simp add: field_simps)
    then show ?thesis using ppos by (simp add: abs_mult)
  qed
  ultimately have near: "2 * \<bar>round_leading m - m\<bar> \<le> p"
    by (simp add: rl)
  have "1 \<le> c" "c \<le> 10"
    using y round_half_even_ge round_half_even_le by (simp_all add: c_def)
  with rl near show ?thesis
    unfolding p_def by blast
qed

lemma round_leading_ge:
  assumes "0 < m"
  shows "10 powr real_of_int (lead_exp m) \<le> round_leading m"
proof -
  obtain c :: int where c: "1 \<le> c"
    and r: "round_leading m = real_of_int c * 10 powr real_of_int (lead_exp m)"
    using round_leading_shape [OF assms] by blast
  have "1 * 10 powr real_of_int (lead_exp m) \<le> real_of_int c * 10 powr real_of_int (lead_exp m)"
    using c by (intro mult_right_mono) simp_all
  then show ?thesis using r by simp
qed

lemma round_leading_pos:
  assumes "0 < m"
  shows "0 < round_leading m"
proof -
  have "(0::real) < 10 powr real_of_int (lead_exp m)" by simp
  with round_leading_ge [OF assms] show ?thesis by linarith
qed

lemma lead_exp_round_leading:
  assumes "0 < m"
  shows "lead_exp m \<le> lead_exp (round_leading m)"
proof -
  have "lead_exp (10 powr real_of_int (lead_exp m)) \<le> lead_exp (round_leading m)"
    by (rule lead_exp_mono) (simp_all add: round_leading_ge [OF assms])
  then show ?thesis by (simp add: lead_exp_powr)
qed

lemma lead_exp_tenth:
  assumes "1 / 10 \<le> m"
  shows "- 1 \<le> lead_exp m"
proof -
  have "lead_exp (10 powr real_of_int (- 1)) \<le> lead_exp m"
    using assms by (intro lead_exp_mono) simp_all
  then show ?thesis by (simp only: lead_exp_powr)
qed


lemma py_int_log_plus_one:
  assumes "0 < x" and "- 1 \<le> lead_exp x"
  shows "py_int (log 10 x + 1) = lead_exp x + 1"
proof -
  have "- 1 \<le> \<lfloor>log 10 x\<rfloor>"
    using assms by (simp add: lead_exp_def)
  then have "real_of_int (- 1) \<le> log 10 x"
    by (simp only: le_floor_iff)
  then have "0 \<le> log 10 x + 1" by simp
  then have "py_int (log 10 x + 1) = \<lfloor>log 10 x + 1\<rfloor>"
    by (simp add: py_int_def)
  also have "\<dots> = lead_exp x + 1"
    using assms(1) by (simp add: lead_exp_def)
  finally show ?thesis .
qed

lemma bound_exp_nonneg:
  assumes "1 / 10 \<le> m"
  shows "0 \<le> bound_exp m"
proof -
  have "0 < m" using assms by simp
  from lead_exp_round_leading [OF this] lead_exp_tenth [OF assms]
  show ?thesis by (simp add: bound_exp_def)
qed


lemma upper_bound_eq:
  assumes "1 / 10 \<le> m"
  shows "upper_bound m = 10 powr real_of_int (bound_exp m)"
proof -
  have pos: "0 < m" using assms by simp
  have "- 1 \<le> lead_exp (round_leading m)"
    using lead_exp_round_leading [OF pos] lead_exp_tenth [OF assms] by simp
  from py_int_log_plus_one [OF round_leading_pos [OF pos] this]
  show ?thesis by (simp add: upper_bound_def bound_exp_def)
qed

lemma powers_of_10_eq:
  assumes "1 / 10 \<le> m"
  shows "powers_of_10 m = map (\<lambda>i. 10 ^ i) [1 ..< Suc (nat (bound_exp m))]"
proof -
  have b: "0 \<le> bound_exp m" by (rule bound_exp_nonneg [OF assms])
  have "log 10 (upper_bound m) = real_of_int (bound_exp m)"
    by (simp add: upper_bound_eq [OF assms])
  then have "py_int (log 10 (upper_bound m) + 1) = bound_exp m + 1"
    using b by (simp add: py_int_def)
  then have "nat (py_int (log 10 (upper_bound m) + 1)) = Suc (nat (bound_exp m))"
    using b by simp
  then show ?thesis by (simp add: powers_of_10_def)
qed







lemma round_leading_50: "round_leading 50 = 50"
proof -
  have "lead_exp 50 = 1" by (rule lead_exp_eqI) simp_all
  then have "\<lfloor>log 10 (50::real)\<rfloor> = 1" by (simp add: lead_exp_def)
  then show ?thesis
    by (simp add: round_leading_def py_round_def round_half_even_def)
qed

lemma bound_exp_50: "bound_exp 50 = 2"
proof -
  have "lead_exp 50 = 1" by (rule lead_exp_eqI) simp_all
  then show ?thesis by (simp add: bound_exp_def round_leading_50)
qed


lemma powers_of_10_50: "powers_of_10 50 = [10, 100]"
  using powers_of_10_eq [of 50] by (simp add: bound_exp_50 upt_rec numeral_2_eq_2)

lemma scenario_frame_eval:
  "map col_unit scenario_frame = [None, Some 50, None]"
  by (simp add: scenario_frame_def eval_defs frame_defs join_defs)



text \<open>The maximum 0.05: the exponent of its leading digit, its rounding and the bound.\<close>

lemma powr_minus_two: "(10::real) powr - 2 = 1 / 100"
  by (simp add: powr_minus_divide)

lemma powr_minus_one: "(10::real) powr - 1 = 1 / 10"
  by (simp add: powr_minus_divide)

lemma round_leading_small: "round_leading (1 / 20) = 1 / 20"
proof -
  have "lead_exp (1 / 20) = - 2"
    by (rule lead_exp_eqI) (simp_all add: powr_minus_two powr_minus_one)
  then have "\<lfloor>log 10 (1 / 20 :: real)\<rfloor> = - 2" by (simp add: lead_exp_def)
  then show ?thesis
    by (simp add: round_leading_def py_round_def round_half_even_def)
qed

lemma upper_bound_small: "upper_bound (1 / 20) = 1"
proof -
  have lo: "- 2 < log 10 (1 / 20 :: real)"
    by (subst less_log_iff) (simp_all add: powr_minus_two)
  have hi: "log 10 (1 / 20 :: real) < - 1"
    by (subst log_less_iff) (simp_all add: powr_minus_one)
  have "\<lceil>log 10 (1 / 20 :: real) + 1\<rceil> = 0"
    using lo hi by (intro ceiling_unique) simp_all
  with hi have "py_int (log 10 (1 / 20 :: real) + 1) = 0"
    by (simp add: py_int_def)
  then show ?thesis by (simp add: upper_bound_def round_leading_small)
qed

lemma powers_of_10_small: "powers_of_10 (1 / 20) = []"
  by (simp add: powers_of_10_def upper_bound_small py_int_def)



subsection \<open>Title and hover text\<close>

lemmas plot_defs = plot_choropleth_def get_plot_dict_global_def get_plot_dict_for_region_def
  get_cbar_ticks_def max_abs_value_def str_int_def str_nat.simps digit_char_def

lemma plot_choropleth_Inr:
  assumes "plot_choropleth world df q = Inr (d, pd)"
  shows "(if truthy (region q) then get_plot_dict_for_region q d else get_plot_dict_global q d) = Inr pd"
  using assms by (auto simp: plot_choropleth_def split: sum.splits prod.splits)

lemma title_global:
  assumes "get_plot_dict_global q d = Inr pd"
  shows "title pd = py_str (region q) @ '' - ''
           @ (case year q of Overall \<Rightarrow> [] | Year y \<Rightarrow> str_int y @ '' - '')
           @ activity_phrase False (activity q)
           @ (if arms_category q \<noteq> ''All'' then '' - '' @ arms_category q else [])"
  using assms
  by (cases "activity q"; cases "year q"; cases "get_cbar_ticks q d")
     (auto simp: get_plot_dict_global_def activity_phrase_def Let_def split: prod.splits)

lemma title_for_region:
  assumes "get_plot_dict_for_region q d = Inr pd"
  shows "title pd = (case year q of Overall \<Rightarrow> [] | Year y \<Rightarrow> str_int y @ '' - '')
           @ activity_phrase True (activity q)
           @ (if arms_category q \<noteq> ''All'' then '' - '' @ arms_category q else [])"
  using assms
  by (cases "activity q"; cases "year q"; cases "get_cbar_ticks q d")
     (auto simp: get_plot_dict_for_region_def activity_phrase_def Let_def split: prod.splits)

lemma plot_title:
  assumes "plot_choropleth world df q = Inr (d, pd)"
  shows "title pd = (if truthy (region q) then [] else py_str (region q) @ '' - '')
           @ (case year q of Overall \<Rightarrow> [] | Year y \<Rightarrow> str_int y @ '' - '')
           @ activity_phrase (truthy (region q)) (activity q)
           @ (if arms_category q \<noteq> ''All'' then '' - '' @ arms_category q else [])"
proof (cases "truthy (region q)")
  case True
  with plot_choropleth_Inr [OF assms] have "get_plot_dict_for_region q d = Inr pd" by simp
  from title_for_region [OF this] True show ?thesis by simp
next
  case False
  with plot_choropleth_Inr [OF assms] have "get_plot_dict_global q d = Inr pd" by simp
  from title_global [OF this] False show ?thesis by simp
qed

lemma hover_global:
  assumes "get_plot_dict_global q d = Inr pd"
    and "activity q = ActNetBalance \<or> activity q = ActTotalActivity"
  shows "hovertemplate pd = ''<b>%{location}</b><br>'' @ unit q
           @ '': %{customdata[0]:.2f}<br>Supplied by '' @ py_str (region q)
           @ '': %{customdata[1]:.2f}<br>Received from other regions: %{customdata[2]:.2f}<extra></extra>''
         \<and> customdata pd = map (\<lambda>r. [col_unit r, col_Supplied r, col_Received r]) d"
  using assms
  by (cases "get_cbar_ticks q d")
     (auto simp: get_plot_dict_global_def Let_def split: prod.splits)

lemma hover_for_region:
  assumes "get_plot_dict_for_region q d = Inr pd"
    and "activity q = ActNetBalance \<or> activity q = ActTotalActivity"
  shows "hovertemplate pd = ''<b>%{location}</b><br>'' @ unit q
           @ '': %{customdata[0]:.2f}<br>Supplied: %{customdata[1]:.2f}<br>Received: %{customdata[2]:.2f}<extra></extra>''
         \<and> customdata pd = map (\<lambda>r. [col_unit r, col_Supplied r, col_Received r]) d"
  using assms
  by (cases "get_cbar_ticks q d")
     (auto simp: get_plot_dict_for_region_def Let_def split: prod.splits)

text \<open>
  Claim C9 does not hold of the code. Year, activity phrase and category come in the
  fixed order, the year exactly for a specific year and the category exactly for a
  specific category (\<open>plot_title\<close>); but the region prefix is present exactly when no
  focus region is set, and it is then the text of the empty region: without focus region
  the scenario of 2020 has the title \<^verbatim>\<open>None - 2020 - Weapons Supplied to other regions\<close>,
  and with focus region India the title \<^verbatim>\<open>2020 - Weapons Received\<close> does not name India.
\<close>

theorem title_region_prefix_swapped:
  "\<not> isl (plot_choropleth world3 (enriched_frame [row_rus_ind]) (example_query ActSupplied (Year 2020) None))
   \<and> title (snd (projr (plot_choropleth world3 (enriched_frame [row_rus_ind])
        (example_query ActSupplied (Year 2020) None))))
     = ''None - 2020 - Weapons Supplied to other regions''
   \<and> \<not> isl (plot_choropleth world3 (enriched_frame [row_rus_ind])
        (example_query ActReceived (Year 2020) (Some ''India'')))
   \<and> title (snd (projr (plot_choropleth world3 (enriched_frame [row_rus_ind])
        (example_query ActReceived (Year 2020) (Some ''India'')))))
     = ''2020 - Weapons Received''"
  by (simp add: eval_defs frame_defs join_defs plot_defs powers_of_10_50)

lemma plot_hovertemplate:
  assumes "plot_choropleth world df q = Inr (d, pd)"
    and "activity q = ActNetBalance \<or> activity q = ActTotalActivity"
  shows "hovertemplate pd =
           (if truthy (region q)
            then ''<b>%{location}</b><br>'' @ unit q
              @ '': %{customdata[0]:.2f}<br>Supplied: %{customdata[1]:.2f}<br>Received: %{customdata[2]:.2f}<extra></extra>''
            else ''<b>%{location}</b><br>'' @ unit q
              @ '': %{customdata[0]:.2f}<br>Supplied by '' @ py_str (region q)
              @ '': %{customdata[1]:.2f}<br>Received from other regions: %{customdata[2]:.2f}<extra></extra>'')
         \<and> customdata pd = map (\<lambda>r. [col_unit r, col_Supplied r, col_Received r]) d"
proof (cases "truthy (region q)")
  case True
  with plot_choropleth_Inr [OF assms(1)] have "get_plot_dict_for_region q d = Inr pd" by simp
  from hover_for_region [OF this assms(2)] True show ?thesis by simp
next
  case False
  with plot_choropleth_Inr [OF assms(1)] have "get_plot_dict_global q d = Inr pd" by simp
  from hover_global [OF this assms(2)] False show ?thesis by simp
qed

text \<open>
  Claim C8 does not hold of the code. In the composite modes the hover text shows the
  three values with two decimals (\<open>plot_hovertemplate\<close>), but the labels are the
  other way round: without focus region they are \<^verbatim>\<open>Supplied by None\<close> and
  \<^verbatim>\<open>Received from other regions\<close>, with focus region India the plain \<^verbatim>\<open>Supplied\<close> and
  \<^verbatim>\<open>Received\<close>.
\<close>

theorem hover_labels_swapped:
  "\<not> isl (plot_choropleth world3 (enriched_frame [row_rus_ind]) (example_query ActNetBalance Overall None))
   \<and> hovertemplate (snd (projr (plot_choropleth world3 (enriched_frame [row_rus_ind])
        (example_query ActNetBalance Overall None))))
     = ''<b>%{location}</b><br>Number ordered: %{customdata[0]:.2f}<br>Supplied by None: %{customdata[1]:.2f}<br>Received from other regions: %{customdata[2]:.2f}<extra></extra>''
   \<and> \<not> isl (plot_choropleth world3 (enriched_frame [row_rus_ind])
        (example_query ActNetBalance Overall (Some ''India'')))
   \<and> hovertemplate (snd (projr (plot_choropleth world3 (enriched_frame [row_rus_ind])
        (example_query ActNetBalance Overall (Some ''India'')))))
     = ''<b>%{location}</b><br>Number ordered: %{customdata[0]:.2f}<br>Supplied: %{customdata[1]:.2f}<br>Received: %{customdata[2]:.2f}<extra></extra>''
   \<and> customdata (snd (projr (plot_choropleth world3 (enriched_frame [row_rus_ind])
        (example_query ActNetBalance Overall (Some ''India'')))))
     = [[None, None, None], [Some (- 50), Some 50, Some 0], [None, None, None]]"
  by (simp add: eval_defs frame_defs join_defs plot_defs powers_of_10_50)


end
